theory Spec2Isabelle
  imports Main "HOL-Library.Word"
begin

section \<open>The NRT memory-info runtime (numba/core/runtime/nrt.cpp)\<close>

text \<open>
  A shallow embedding of \<^verbatim>\<open>nrt.cpp\<close> for an LP64 target: \<^verbatim>\<open>size_t\<close> and data
  pointers are 64-bit words (the null pointer is 0), \<^verbatim>\<open>unsigned\<close> is a 32-bit word.
  The process state (the global \<^verbatim>\<open>TheMSys\<close>, the MemInfo records in memory, the
  payload bytes) is passed explicitly. A call that ends the process
  (\<^verbatim>\<open>nrt_fatal_error\<close>, a failed \<^verbatim>\<open>assert\<close>, a dereference of a pointer that holds no
  MemInfo) is the \<open>Inl\<close> branch of the result. The \<^verbatim>\<open>assert\<close>s are taken as compiled
  in, the \<^verbatim>\<open>NRT_Debug\<close> prints are left out, and the types that \<^verbatim>\<open>nrt.h\<close> declares are
  read off their uses in \<^verbatim>\<open>nrt.cpp\<close>.
\<close>

subsection \<open>Values\<close>

type_synonym addr = "64 word"
type_synonym size_t = "64 word"
type_synonym byte = "8 word"
type_synonym memory = "addr \<Rightarrow> byte"

text \<open>
  The address of a function. The functions \<^verbatim>\<open>nrt.cpp\<close> defines and stores in function
  pointers have a constructor each; \<open>extern_fn k\<close> is code outside the runtime (the
  platform allocator, a caller's destructor, a caller's external allocator).
\<close>

datatype fn =
    nrt_internal_dtor_safe_fp
  | nrt_internal_custom_dtor_safe_fp
  | nrt_varsize_dtor_fp
  | nrt_manage_memory_dtor_fp
  | sample_external_malloc_fp
  | sample_external_realloc_fp
  | sample_external_free_fp
  | extern_fn nat

text \<open>
  A \<^verbatim>\<open>void *\<close> as the runtime stores it in \<^verbatim>\<open>dtor_info\<close> and \<^verbatim>\<open>opaque_data\<close>: a data
  address (or an integer cast to a pointer), a function's address, or the address of
  the static \<^verbatim>\<open>sample_external_opaque_data\<close>.
\<close>

datatype voidp =
    DataPtr addr
  | FunPtr fn
  | sample_external_opaque_data_ref

definition NULL :: voidp where
  "NULL = DataPtr 0"

datatype error =
    Fatal string
  | AssertionFailed
  | InvalidPointer
  | BadCall
  | DivisionByZero

record ExternalAllocator =
  malloc :: fn
  realloc :: fn
  free :: fn
  opaque_data :: voidp

record MemInfo =
  refct :: size_t
  dtor :: "fn option"
  dtor_info :: voidp
  data :: addr
  size_mi :: size_t
  external_allocator :: "ExternalAllocator option"

record MemSys =
  shutting :: int
  stats_alloc :: size_t
  stats_free :: size_t
  stats_mi_alloc :: size_t
  stats_mi_free :: size_t
  allocator_malloc :: fn
  allocator_realloc :: fn
  allocator_free :: fn

text \<open>A call through a function pointer, with the pointer and the arguments.\<close>

datatype event =
    Malloc fn size_t
  | Realloc fn addr size_t
  | Free fn addr
  | ExtMalloc fn size_t voidp
  | ExtFree fn addr voidp
  | Dtor fn addr size_t voidp
  | Dtor1 fn addr

text \<open>
  The process state. \<open>heap\<close> holds the MemInfo records by address, \<open>bytes\<close> the payload
  bytes, \<open>trace\<close> the calls made through function pointers so far, in order. Code
  outside the runtime is not in the source: what its allocation functions return is read
  from \<open>alloc_results\<close> (the results of the coming calls, null when the list is used
  up), and what a foreign call does to the payload bytes is \<open>foreign\<close>. A foreign call
  that calls back into the runtime is not modelled.
\<close>

record world =
  TheMSys :: MemSys
  heap :: "addr \<rightharpoonup> MemInfo"
  bytes :: memory
  trace :: "event list"
  alloc_results :: "addr list"
  foreign :: "event \<Rightarrow> memory \<Rightarrow> memory"

definition sizeof_MemInfo :: size_t where
  "sizeof_MemInfo = 48"

definition MIN_sz :: "size_t \<Rightarrow> size_t \<Rightarrow> size_t" where
  "MIN_sz a b = (if a < b then a else b)"

definition memset :: "addr \<Rightarrow> byte \<Rightarrow> size_t \<Rightarrow> memory \<Rightarrow> memory" where
  "memset p c n m = (\<lambda>a. if a - p < n then c else m a)"

subsection \<open>Code outside the runtime\<close>

definition log_call :: "event \<Rightarrow> world \<Rightarrow> world" where
  "log_call e s = s\<lparr>trace := trace s @ [e]\<rparr>"

definition extern_call :: "event \<Rightarrow> world \<Rightarrow> world" where
  "extern_call e s = (log_call e s)\<lparr>bytes := foreign s e (bytes s)\<rparr>"

definition next_result :: "world \<Rightarrow> addr \<times> world" where
  "next_result s =
     (case alloc_results s of [] \<Rightarrow> (0, s) | p # ps \<Rightarrow> (p, s\<lparr>alloc_results := ps\<rparr>))"

text \<open>\<^verbatim>\<open>TheMSys.allocator.malloc(size)\<close>, \<^verbatim>\<open>.realloc(ptr, size)\<close> and \<^verbatim>\<open>.free(ptr)\<close>. A
  MemInfo stored in a block that is freed is gone.\<close>

definition call_malloc :: "fn \<Rightarrow> size_t \<Rightarrow> world \<Rightarrow> addr \<times> world" where
  "call_malloc f sz s = next_result (extern_call (Malloc f sz) s)"

definition call_realloc :: "fn \<Rightarrow> addr \<Rightarrow> size_t \<Rightarrow> world \<Rightarrow> addr \<times> world" where
  "call_realloc f ptr sz s = next_result (extern_call (Realloc f ptr sz) s)"

definition call_free :: "fn \<Rightarrow> addr \<Rightarrow> world \<Rightarrow> world" where
  "call_free f ptr s = (extern_call (Free f ptr) s)\<lparr>heap := (heap s)(ptr := None)\<rparr>"

subsection \<open>Global resources\<close>

definition nrt_fatal_error :: "string \<Rightarrow> error + 'a" where
  "nrt_fatal_error msg = Inl (Fatal msg)"

text \<open>\<^verbatim>\<open>NRT_MemSys_init\<close> binds the C library's \<^verbatim>\<open>malloc\<close>, \<^verbatim>\<open>realloc\<close> and \<^verbatim>\<open>free\<close>,
  whose addresses are parameters here.\<close>

definition NRT_MemSys_init :: "fn \<Rightarrow> fn \<Rightarrow> fn \<Rightarrow> world \<Rightarrow> world" where
  "NRT_MemSys_init libc_malloc libc_realloc libc_free s =
     s\<lparr>TheMSys := \<lparr>shutting = 0, stats_alloc = 0, stats_free = 0, stats_mi_alloc = 0,
         stats_mi_free = 0, allocator_malloc = libc_malloc,
         allocator_realloc = libc_realloc, allocator_free = libc_free\<rparr>\<rparr>"

definition NRT_MemSys_shutdown :: "world \<Rightarrow> world" where
  "NRT_MemSys_shutdown s = s\<lparr>TheMSys := (TheMSys s)\<lparr>shutting := 1\<rparr>\<rparr>"

definition NRT_MemSys_set_allocator :: "fn \<Rightarrow> fn \<Rightarrow> fn \<Rightarrow> world \<Rightarrow> error + world" where
  "NRT_MemSys_set_allocator malloc_func realloc_func free_func s =
     (if (malloc_func \<noteq> allocator_malloc (TheMSys s) \<or>
          realloc_func \<noteq> allocator_realloc (TheMSys s) \<or>
          free_func \<noteq> allocator_free (TheMSys s)) \<and>
         (stats_alloc (TheMSys s) \<noteq> stats_free (TheMSys s) \<or>
          stats_mi_alloc (TheMSys s) \<noteq> stats_mi_free (TheMSys s))
      then nrt_fatal_error ''cannot change allocator while blocks are allocated''
      else Inr (s\<lparr>TheMSys := (TheMSys s)\<lparr>allocator_malloc := malloc_func,
                     allocator_realloc := realloc_func, allocator_free := free_func\<rparr>\<rparr>))"

subsection \<open>Low-level allocation wrappers\<close>

definition sample_external_malloc :: "size_t \<Rightarrow> voidp \<Rightarrow> world \<Rightarrow> addr \<times> world" where
  "sample_external_malloc sz opaque s =
     (if opaque \<noteq> sample_external_opaque_data_ref then (0, s)
      else call_malloc (allocator_malloc (TheMSys s)) sz s)"

definition sample_external_realloc ::
  "addr \<Rightarrow> size_t \<Rightarrow> voidp \<Rightarrow> world \<Rightarrow> addr \<times> world" where
  "sample_external_realloc ptr new_size opaque s =
     (if opaque \<noteq> sample_external_opaque_data_ref then (0, s)
      else call_realloc (allocator_realloc (TheMSys s)) ptr new_size s)"

definition sample_external_free :: "addr \<Rightarrow> voidp \<Rightarrow> world \<Rightarrow> world" where
  "sample_external_free ptr opaque s = call_free (allocator_free (TheMSys s)) ptr s"

text \<open>\<^verbatim>\<open>allocator->malloc(size, allocator->opaque_data)\<close> and
  \<^verbatim>\<open>allocator->free(ptr, allocator->opaque_data)\<close>.\<close>

definition call_ext_malloc :: "fn \<Rightarrow> size_t \<Rightarrow> voidp \<Rightarrow> world \<Rightarrow> addr \<times> world" where
  "call_ext_malloc f sz opaque s =
     (if f = sample_external_malloc_fp
      then sample_external_malloc sz opaque (log_call (ExtMalloc f sz opaque) s)
      else next_result (extern_call (ExtMalloc f sz opaque) s))"

definition call_ext_free :: "fn \<Rightarrow> addr \<Rightarrow> voidp \<Rightarrow> world \<Rightarrow> world" where
  "call_ext_free f ptr opaque s =
     (if f = sample_external_free_fp
      then sample_external_free ptr opaque (log_call (ExtFree f ptr opaque) s)
      else (extern_call (ExtFree f ptr opaque) s)\<lparr>heap := (heap s)(ptr := None)\<rparr>)"

definition NRT_Allocate_External ::
  "size_t \<Rightarrow> ExternalAllocator option \<Rightarrow> world \<Rightarrow> addr \<times> world" where
  "NRT_Allocate_External sz allocator s =
     (let (ptr, s1) =
        (case allocator of
           Some a \<Rightarrow> call_ext_malloc (malloc a) sz (opaque_data a) s
         | None \<Rightarrow> call_malloc (allocator_malloc (TheMSys s)) sz s)
      in (ptr, s1\<lparr>TheMSys := (TheMSys s1)\<lparr>stats_alloc := stats_alloc (TheMSys s1) + 1\<rparr>\<rparr>))"

definition NRT_Allocate :: "size_t \<Rightarrow> world \<Rightarrow> addr \<times> world" where
  "NRT_Allocate sz s = NRT_Allocate_External sz None s"

definition NRT_Reallocate :: "addr \<Rightarrow> size_t \<Rightarrow> world \<Rightarrow> addr \<times> world" where
  "NRT_Reallocate ptr sz s = call_realloc (allocator_realloc (TheMSys s)) ptr sz s"

definition NRT_Free :: "addr \<Rightarrow> world \<Rightarrow> world" where
  "NRT_Free ptr s =
     (let s1 = call_free (allocator_free (TheMSys s)) ptr s
      in s1\<lparr>TheMSys := (TheMSys s1)\<lparr>stats_free := stats_free (TheMSys s1) + 1\<rparr>\<rparr>)"

subsection \<open>The MemInfo structure\<close>

text \<open>\<^verbatim>\<open>mi->refct.store(1); mi->dtor = dtor; ...; TheMSys.stats_mi_alloc++\<close>. The
  caller hands in the memory of the record; writing through a null \<open>mi\<close> ends the
  process.\<close>

definition NRT_MemInfo_init ::
  "addr \<Rightarrow> addr \<Rightarrow> size_t \<Rightarrow> fn option \<Rightarrow> voidp \<Rightarrow> ExternalAllocator option \<Rightarrow> world
     \<Rightarrow> error + world" where
  "NRT_MemInfo_init mi data' sz dtor' dtor_info' external_allocator' s =
     (if mi = 0 then Inl InvalidPointer
      else Inr (s\<lparr>heap := (heap s)(mi \<mapsto>
                     \<lparr>refct = 1, dtor = dtor', dtor_info = dtor_info', data = data',
                      size_mi = sz, external_allocator = external_allocator'\<rparr>),
                  TheMSys := (TheMSys s)\<lparr>stats_mi_alloc := stats_mi_alloc (TheMSys s) + 1\<rparr>\<rparr>))"

definition NRT_MemInfo_new ::
  "addr \<Rightarrow> size_t \<Rightarrow> fn option \<Rightarrow> voidp \<Rightarrow> world \<Rightarrow> error + (addr \<times> world)" where
  "NRT_MemInfo_new data' sz dtor' dtor_info' s =
     (let (mi, s1) = NRT_Allocate sizeof_MemInfo s
      in case NRT_MemInfo_init mi data' sz dtor' dtor_info' None s1 of
           Inl e \<Rightarrow> Inl e
         | Inr s2 \<Rightarrow> Inr (mi, s2))"

text \<open>\<^verbatim>\<open>if (mi && mi->data) return mi->refct; else return (size_t)-1;\<close>\<close>

definition NRT_MemInfo_refcount :: "addr \<Rightarrow> world \<Rightarrow> error + size_t" where
  "NRT_MemInfo_refcount mi s =
     (if mi = 0 then Inr (- 1)
      else case heap s mi of
             None \<Rightarrow> Inl InvalidPointer
           | Some m \<Rightarrow> if data m \<noteq> 0 then Inr (refct m) else Inr (- 1))"

definition nrt_internal_dtor_safe :: "addr \<Rightarrow> size_t \<Rightarrow> voidp \<Rightarrow> world \<Rightarrow> world" where
  "nrt_internal_dtor_safe ptr sz info s =
     s\<lparr>bytes := memset ptr 0xDE (MIN_sz sz 256) (bytes s)\<rparr>"

text \<open>Returns the data pointer and, for \<^verbatim>\<open>*mi_out\<close>, the base of the block.\<close>

definition nrt_allocate_meminfo_and_data ::
  "size_t \<Rightarrow> ExternalAllocator option \<Rightarrow> world \<Rightarrow> addr \<times> addr \<times> world" where
  "nrt_allocate_meminfo_and_data sz allocator s =
     (let (base, s1) = NRT_Allocate_External (sizeof_MemInfo + sz) allocator s
      in (base + sizeof_MemInfo, base, s1))"

subsection \<open>Destructors\<close>

text \<open>A \<^verbatim>\<open>void *\<close> cast to a function pointer: null, a function, or (an error at the
  call) something that is no function.\<close>

fun as_function :: "voidp \<Rightarrow> error + fn option" where
  "as_function (DataPtr a) = (if a = 0 then Inr None else Inl BadCall)"
| "as_function (FunPtr f) = Inr (Some f)"
| "as_function sample_external_opaque_data_ref = Inl BadCall"

text \<open>\<^verbatim>\<open>(void*)dtor\<close>\<close>

fun as_voidp :: "fn option \<Rightarrow> voidp" where
  "as_voidp None = DataPtr 0"
| "as_voidp (Some f) = FunPtr f"

text \<open>\<^verbatim>\<open>if (info) { dtor = (dtor_fn_t *)info; dtor(ptr); } NRT_Free(ptr);\<close>\<close>

definition nrt_varsize_dtor :: "addr \<Rightarrow> size_t \<Rightarrow> voidp \<Rightarrow> world \<Rightarrow> error + world" where
  "nrt_varsize_dtor ptr sz info s =
     (case as_function info of
        Inl e \<Rightarrow> Inl e
      | Inr None \<Rightarrow> Inr (NRT_Free ptr s)
      | Inr (Some d) \<Rightarrow> Inr (NRT_Free ptr (extern_call (Dtor1 d ptr) s)))"

text \<open>\<^verbatim>\<open>dtor = (NRT_managed_dtor*)info; dtor(data);\<close> with no test of \<open>dtor\<close>.\<close>

definition nrt_manage_memory_dtor :: "addr \<Rightarrow> size_t \<Rightarrow> voidp \<Rightarrow> world \<Rightarrow> error + world" where
  "nrt_manage_memory_dtor data' sz info s =
     (case as_function info of
        Inl e \<Rightarrow> Inl e
      | Inr None \<Rightarrow> Inl InvalidPointer
      | Inr (Some d) \<Rightarrow> Inr (extern_call (Dtor1 d data') s))"

text \<open>A call \<^verbatim>\<open>f(ptr, size, info)\<close> through a destructor pointer \<open>f\<close> other than
  \<^verbatim>\<open>nrt_internal_custom_dtor_safe\<close>: one of the runtime's own destructors, or code
  outside the runtime.\<close>

definition call_plain_dtor :: "fn \<Rightarrow> addr \<Rightarrow> size_t \<Rightarrow> voidp \<Rightarrow> world \<Rightarrow> error + world" where
  "call_plain_dtor f ptr sz info s =
     (if f = nrt_internal_dtor_safe_fp
      then Inr (nrt_internal_dtor_safe ptr sz info (log_call (Dtor f ptr sz info) s))
      else if f = nrt_varsize_dtor_fp
      then nrt_varsize_dtor ptr sz info (log_call (Dtor f ptr sz info) s)
      else if f = nrt_manage_memory_dtor_fp
      then nrt_manage_memory_dtor ptr sz info (log_call (Dtor f ptr sz info) s)
      else Inr (extern_call (Dtor f ptr sz info) s))"

text \<open>\<^verbatim>\<open>dtor = (NRT_dtor_function)info; if (dtor) dtor(ptr, size, NULL);
  nrt_internal_dtor_safe(ptr, size, NULL);\<close> Should \<open>dtor\<close> be this very function, it is
  entered with a null \<open>info\<close> and only fills.\<close>

definition nrt_internal_custom_dtor_safe ::
  "addr \<Rightarrow> size_t \<Rightarrow> voidp \<Rightarrow> world \<Rightarrow> error + world" where
  "nrt_internal_custom_dtor_safe ptr sz info s =
     (case as_function info of
        Inl e \<Rightarrow> Inl e
      | Inr None \<Rightarrow> Inr (nrt_internal_dtor_safe ptr sz NULL s)
      | Inr (Some d) \<Rightarrow>
          (case (if d = nrt_internal_custom_dtor_safe_fp
                 then Inr (nrt_internal_dtor_safe ptr sz NULL (log_call (Dtor d ptr sz NULL) s))
                 else call_plain_dtor d ptr sz NULL s) of
             Inl e \<Rightarrow> Inl e
           | Inr s1 \<Rightarrow> Inr (nrt_internal_dtor_safe ptr sz NULL s1)))"

text \<open>\<^verbatim>\<open>mi->dtor(mi->data, mi->size, mi->dtor_info)\<close>\<close>

definition call_dtor :: "fn \<Rightarrow> addr \<Rightarrow> size_t \<Rightarrow> voidp \<Rightarrow> world \<Rightarrow> error + world" where
  "call_dtor f ptr sz info s =
     (if f = nrt_internal_custom_dtor_safe_fp
      then nrt_internal_custom_dtor_safe ptr sz info (log_call (Dtor f ptr sz info) s)
      else call_plain_dtor f ptr sz info s)"

subsection \<open>Allocation variants\<close>

definition NRT_MemInfo_alloc :: "size_t \<Rightarrow> world \<Rightarrow> error + (addr \<times> world)" where
  "NRT_MemInfo_alloc sz s =
     (let (data', mi, s1) = nrt_allocate_meminfo_and_data sz None s
      in case NRT_MemInfo_init mi data' sz None NULL None s1 of
           Inl e \<Rightarrow> Inl e
         | Inr s2 \<Rightarrow> Inr (mi, s2))"

definition NRT_MemInfo_alloc_external ::
  "size_t \<Rightarrow> ExternalAllocator option \<Rightarrow> world \<Rightarrow> error + (addr \<times> world)" where
  "NRT_MemInfo_alloc_external sz allocator s =
     (let (data', mi, s1) = nrt_allocate_meminfo_and_data sz allocator s
      in case NRT_MemInfo_init mi data' sz None NULL allocator s1 of
           Inl e \<Rightarrow> Inl e
         | Inr s2 \<Rightarrow> Inr (mi, s2))"

definition NRT_MemInfo_alloc_dtor_safe ::
  "size_t \<Rightarrow> fn option \<Rightarrow> world \<Rightarrow> error + (addr \<times> world)" where
  "NRT_MemInfo_alloc_dtor_safe sz dtor' s =
     (let (data', mi, s1) = nrt_allocate_meminfo_and_data sz None s;
          s2 = s1\<lparr>bytes := memset data' 0xCB (MIN_sz sz 256) (bytes s1)\<rparr>
      in case NRT_MemInfo_init mi data' sz (Some nrt_internal_custom_dtor_safe_fp)
                (as_voidp dtor') None s2 of
           Inl e \<Rightarrow> Inl e
         | Inr s3 \<Rightarrow> Inr (mi, s3))"

definition NRT_MemInfo_alloc_safe :: "size_t \<Rightarrow> world \<Rightarrow> error + (addr \<times> world)" where
  "NRT_MemInfo_alloc_safe sz s = NRT_MemInfo_alloc_dtor_safe sz None s"

text \<open>\<^verbatim>\<open>size + 2 * align\<close> multiplies in \<^verbatim>\<open>unsigned\<close> and adds in \<^verbatim>\<open>size_t\<close>;
  \<^verbatim>\<open>intptr % align\<close> with a zero \<open>align\<close> ends the process.\<close>

definition nrt_allocate_meminfo_and_data_align ::
  "size_t \<Rightarrow> 32 word \<Rightarrow> ExternalAllocator option \<Rightarrow> world
     \<Rightarrow> error + (addr \<times> addr \<times> world)" where
  "nrt_allocate_meminfo_and_data_align sz align allocator s =
     (let (base, mi, s1) = nrt_allocate_meminfo_and_data (sz + ucast (2 * align)) allocator s;
          intptr = base
      in if align = 0 then Inl DivisionByZero
         else (let remainder = intptr mod ucast align;
                   offset = (if remainder = 0 then 0 else ucast align - remainder)
               in Inr (base + offset, mi, s1)))"

definition NRT_MemInfo_alloc_aligned ::
  "size_t \<Rightarrow> 32 word \<Rightarrow> world \<Rightarrow> error + (addr \<times> world)" where
  "NRT_MemInfo_alloc_aligned sz align s =
     (case nrt_allocate_meminfo_and_data_align sz align None s of
        Inl e \<Rightarrow> Inl e
      | Inr (data', mi, s1) \<Rightarrow>
          (case NRT_MemInfo_init mi data' sz None NULL None s1 of
             Inl e \<Rightarrow> Inl e
           | Inr s2 \<Rightarrow> Inr (mi, s2)))"

definition NRT_MemInfo_alloc_safe_aligned_external ::
  "size_t \<Rightarrow> 32 word \<Rightarrow> ExternalAllocator option \<Rightarrow> world \<Rightarrow> error + (addr \<times> world)" where
  "NRT_MemInfo_alloc_safe_aligned_external sz align allocator s =
     (case nrt_allocate_meminfo_and_data_align sz align allocator s of
        Inl e \<Rightarrow> Inl e
      | Inr (data', mi, s1) \<Rightarrow>
          (let s2 = s1\<lparr>bytes := memset data' 0xCB (MIN_sz sz 256) (bytes s1)\<rparr>
           in case NRT_MemInfo_init mi data' sz (Some nrt_internal_dtor_safe_fp)
                     (DataPtr sz) allocator s2 of
                Inl e \<Rightarrow> Inl e
              | Inr s3 \<Rightarrow> Inr (mi, s3)))"

definition NRT_MemInfo_alloc_safe_aligned ::
  "size_t \<Rightarrow> 32 word \<Rightarrow> world \<Rightarrow> error + (addr \<times> world)" where
  "NRT_MemInfo_alloc_safe_aligned sz align s =
     (case nrt_allocate_meminfo_and_data_align sz align None s of
        Inl e \<Rightarrow> Inl e
      | Inr (data', mi, s1) \<Rightarrow>
          (let s2 = s1\<lparr>bytes := memset data' 0xCB (MIN_sz sz 256) (bytes s1)\<rparr>
           in case NRT_MemInfo_init mi data' sz (Some nrt_internal_dtor_safe_fp)
                     (DataPtr sz) None s2 of
                Inl e \<Rightarrow> Inl e
              | Inr s3 \<Rightarrow> Inr (mi, s3)))"

subsection \<open>Reference counting and destruction\<close>

definition NRT_dealloc :: "addr \<Rightarrow> world \<Rightarrow> error + world" where
  "NRT_dealloc mi s =
     (case heap s mi of
        None \<Rightarrow> Inl InvalidPointer
      | Some m \<Rightarrow>
          (case external_allocator m of
             Some a \<Rightarrow>
               (let s1 = call_ext_free (free a) mi (opaque_data a) s
                in Inr (s1\<lparr>TheMSys := (TheMSys s1)\<lparr>stats_free := stats_free (TheMSys s1) + 1\<rparr>\<rparr>))
           | None \<Rightarrow> Inr (NRT_Free mi s)))"

definition NRT_MemInfo_destroy :: "addr \<Rightarrow> world \<Rightarrow> error + world" where
  "NRT_MemInfo_destroy mi s =
     (case NRT_dealloc mi s of
        Inl e \<Rightarrow> Inl e
      | Inr s1 \<Rightarrow>
          Inr (s1\<lparr>TheMSys := (TheMSys s1)\<lparr>stats_mi_free := stats_mi_free (TheMSys s1) + 1\<rparr>\<rparr>))"

text \<open>\<^verbatim>\<open>assert(mi->refct > 0 && "RefCt cannot be zero"); mi->refct++;\<close>\<close>

definition NRT_MemInfo_acquire :: "addr \<Rightarrow> world \<Rightarrow> error + world" where
  "NRT_MemInfo_acquire mi s =
     (case heap s mi of
        None \<Rightarrow> Inl InvalidPointer
      | Some m \<Rightarrow>
          if \<not> refct m > 0 then Inl AssertionFailed
          else Inr (s\<lparr>heap := (heap s)(mi \<mapsto> m\<lparr>refct := refct m + 1\<rparr>)\<rparr>))"

text \<open>\<^verbatim>\<open>if (mi->dtor && !TheMSys.shutting) mi->dtor(mi->data, mi->size, mi->dtor_info);
  NRT_MemInfo_destroy(mi);\<close>\<close>

definition NRT_MemInfo_call_dtor :: "addr \<Rightarrow> world \<Rightarrow> error + world" where
  "NRT_MemInfo_call_dtor mi s =
     (case heap s mi of
        None \<Rightarrow> Inl InvalidPointer
      | Some m \<Rightarrow>
          (case (if dtor m \<noteq> None \<and> shutting (TheMSys s) = 0
                 then call_dtor (the (dtor m)) (data m) (size_mi m) (dtor_info m) s
                 else Inr s) of
             Inl e \<Rightarrow> Inl e
           | Inr s1 \<Rightarrow> NRT_MemInfo_destroy mi s1))"

text \<open>\<^verbatim>\<open>assert(mi->refct > 0 && "RefCt cannot be 0");
  if ((--mi->refct) == 0) NRT_MemInfo_call_dtor(mi);\<close>\<close>

definition NRT_MemInfo_release :: "addr \<Rightarrow> world \<Rightarrow> error + world" where
  "NRT_MemInfo_release mi s =
     (case heap s mi of
        None \<Rightarrow> Inl InvalidPointer
      | Some m \<Rightarrow>
          if \<not> refct m > 0 then Inl AssertionFailed
          else (let s1 = s\<lparr>heap := (heap s)(mi \<mapsto> m\<lparr>refct := refct m - 1\<rparr>)\<rparr>
                in if refct m - 1 = 0 then NRT_MemInfo_call_dtor mi s1 else Inr s1))"

definition NRT_MemInfo_data :: "addr \<Rightarrow> world \<Rightarrow> error + addr" where
  "NRT_MemInfo_data mi s =
     (case heap s mi of None \<Rightarrow> Inl InvalidPointer | Some m \<Rightarrow> Inr (data m))"

definition NRT_MemInfo_size :: "addr \<Rightarrow> world \<Rightarrow> error + size_t" where
  "NRT_MemInfo_size mi s =
     (case heap s mi of None \<Rightarrow> Inl InvalidPointer | Some m \<Rightarrow> Inr (size_mi m))"

subsection \<open>Resizable buffer API\<close>

definition NRT_MemInfo_new_varsize :: "size_t \<Rightarrow> world \<Rightarrow> error + (addr \<times> world)" where
  "NRT_MemInfo_new_varsize sz s =
     (let (data', s1) = NRT_Allocate sz s
      in if data' = 0 then Inr (0, s1)
         else NRT_MemInfo_new data' sz (Some nrt_varsize_dtor_fp) NULL s1)"

definition NRT_MemInfo_new_varsize_dtor ::
  "size_t \<Rightarrow> fn option \<Rightarrow> world \<Rightarrow> error + (addr \<times> world)" where
  "NRT_MemInfo_new_varsize_dtor sz dtor' s =
     (case NRT_MemInfo_new_varsize sz s of
        Inl e \<Rightarrow> Inl e
      | Inr (mi, s1) \<Rightarrow>
          if mi \<noteq> 0
          then (case heap s1 mi of
                  None \<Rightarrow> Inl InvalidPointer
                | Some m \<Rightarrow>
                    Inr (mi, s1\<lparr>heap := (heap s1)(mi \<mapsto> m\<lparr>dtor_info := as_voidp dtor'\<rparr>)\<rparr>))
          else Inr (mi, s1))"

text \<open>\<^verbatim>\<open>mi->data = NRT_Allocate(size); if (mi->data == NULL) return NULL;
  mi->size = size; return mi->data;\<close>\<close>

definition NRT_MemInfo_varsize_alloc :: "addr \<Rightarrow> size_t \<Rightarrow> world \<Rightarrow> error + (addr \<times> world)" where
  "NRT_MemInfo_varsize_alloc mi sz s =
     (case heap s mi of
        None \<Rightarrow> Inl InvalidPointer
      | Some m \<Rightarrow>
          if dtor m \<noteq> Some nrt_varsize_dtor_fp
          then nrt_fatal_error
                 ''ERROR: NRT_MemInfo_varsize_alloc called with a non varsize-allocated meminfo''
          else (let (p, s1) = NRT_Allocate sz s;
                    s2 = s1\<lparr>heap := (heap s1)(mi \<mapsto> m\<lparr>data := p\<rparr>)\<rparr>
                in if p = 0 then Inr (0, s2)
                   else Inr (p, s2\<lparr>heap := (heap s2)(mi \<mapsto> m\<lparr>data := p, size_mi := sz\<rparr>)\<rparr>)))"

definition NRT_MemInfo_varsize_realloc ::
  "addr \<Rightarrow> size_t \<Rightarrow> world \<Rightarrow> error + (addr \<times> world)" where
  "NRT_MemInfo_varsize_realloc mi sz s =
     (case heap s mi of
        None \<Rightarrow> Inl InvalidPointer
      | Some m \<Rightarrow>
          if dtor m \<noteq> Some nrt_varsize_dtor_fp
          then nrt_fatal_error
                 ''ERROR: NRT_MemInfo_varsize_realloc called with a non varsize-allocated meminfo''
          else (let (p, s1) = NRT_Reallocate (data m) sz s;
                    s2 = s1\<lparr>heap := (heap s1)(mi \<mapsto> m\<lparr>data := p\<rparr>)\<rparr>
                in if p = 0 then Inr (0, s2)
                   else Inr (p, s2\<lparr>heap := (heap s2)(mi \<mapsto> m\<lparr>data := p, size_mi := sz\<rparr>)\<rparr>)))"

text \<open>\<^verbatim>\<open>NRT_Free(ptr); if (ptr == mi->data) mi->data = NULL;\<close>\<close>

definition NRT_MemInfo_varsize_free :: "addr \<Rightarrow> addr \<Rightarrow> world \<Rightarrow> error + world" where
  "NRT_MemInfo_varsize_free mi ptr s =
     (let s1 = NRT_Free ptr s
      in case heap s1 mi of
           None \<Rightarrow> Inl InvalidPointer
         | Some m \<Rightarrow>
             if ptr = data m then Inr (s1\<lparr>heap := (heap s1)(mi \<mapsto> m\<lparr>data := 0\<rparr>)\<rparr>)
             else Inr s1)"

subsection \<open>The API table's foreign-memory wrapper\<close>

definition nrt_manage_memory :: "addr \<Rightarrow> fn option \<Rightarrow> world \<Rightarrow> error + (addr \<times> world)" where
  "nrt_manage_memory data' dtor' s =
     NRT_MemInfo_new data' 0 (Some nrt_manage_memory_dtor_fp) (as_voidp dtor') s"

subsection \<open>Outcomes and example states\<close>

definition aborts :: "error + 'a \<Rightarrow> bool" where
  "aborts r = (case r of Inl _ \<Rightarrow> True | Inr _ \<Rightarrow> False)"

text \<open>The runtime right after \<^verbatim>\<open>NRT_MemSys_init\<close>, bound to a platform allocator
  (\<open>extern_fn 0\<close>, \<open>1\<close>, \<open>2\<close>) whose coming results are \<open>rs\<close>; foreign code leaves the
  payload bytes alone.\<close>

definition start :: "addr list \<Rightarrow> world" where
  "start rs =
     NRT_MemSys_init (extern_fn 0) (extern_fn 1) (extern_fn 2)
       \<lparr>TheMSys = \<lparr>shutting = 0, stats_alloc = 0, stats_free = 0, stats_mi_alloc = 0,
          stats_mi_free = 0, allocator_malloc = extern_fn 0, allocator_realloc = extern_fn 0,
          allocator_free = extern_fn 0\<rparr>,
        heap = Map.empty, bytes = (\<lambda>a. 0), trace = [], alloc_results = rs,
        foreign = (\<lambda>e m. m)\<rparr>"

text \<open>\<^verbatim>\<open>sample_external_allocator\<close>, and the same capability set with another token.\<close>

definition sample_external_allocator :: ExternalAllocator where
  "sample_external_allocator =
     \<lparr>malloc = sample_external_malloc_fp, realloc = sample_external_realloc_fp,
      free = sample_external_free_fp, opaque_data = sample_external_opaque_data_ref\<rparr>"

definition mismatched_allocator :: ExternalAllocator where
  "mismatched_allocator = sample_external_allocator\<lparr>opaque_data := DataPtr 0xabacad\<rparr>"

subsection \<open>Observing destructor calls\<close>

fun is_Dtor :: "event \<Rightarrow> bool" where
  "is_Dtor (Dtor f ptr sz info) = True"
| "is_Dtor e = False"










text \<open>A 16-byte handle from \<^verbatim>\<open>sample_external_allocator\<close>.\<close>

definition external_example :: "error + (addr \<times> world)" where
  "external_example = NRT_MemInfo_alloc_external 16 (Some sample_external_allocator) (start [0x1000])"

definition external_world :: world where
  "external_world = snd (projr external_example)"

text \<open>A variable-size handle of 16 bytes: the payload at \<open>0x2000\<close>, the record at
  \<open>0x1000\<close>, and an allocator that fails from then on.\<close>

definition varsize_example :: "error + (addr \<times> world)" where
  "varsize_example = NRT_MemInfo_new_varsize 16 (start [0x2000, 0x1000])"

definition varsize_world :: world where
  "varsize_world = snd (projr varsize_example)"

subsection \<open>Sequences of public calls\<close>

text \<open>The public operations on handles, with their arguments.\<close>

datatype api_call =
    Call_alloc size_t
  | Call_alloc_external size_t "ExternalAllocator option"
  | Call_alloc_dtor_safe size_t "fn option"
  | Call_alloc_safe size_t
  | Call_alloc_aligned size_t "32 word"
  | Call_alloc_safe_aligned size_t "32 word"
  | Call_alloc_safe_aligned_external size_t "32 word" "ExternalAllocator option"
  | Call_new_varsize size_t
  | Call_new_varsize_dtor size_t "fn option"
  | Call_manage_memory addr "fn option"
  | Call_acquire addr
  | Call_release addr
  | Call_varsize_alloc addr size_t
  | Call_varsize_realloc addr size_t
  | Call_varsize_free addr addr
  | Call_shutdown

text \<open>A call that returns nothing is given the result 0.\<close>

definition returns_void :: "error + world \<Rightarrow> error + (addr \<times> world)" where
  "returns_void r = (case r of Inl e \<Rightarrow> Inl e | Inr t \<Rightarrow> Inr (0, t))"

fun call :: "api_call \<Rightarrow> world \<Rightarrow> error + (addr \<times> world)" where
  "call (Call_alloc sz) s = NRT_MemInfo_alloc sz s"
| "call (Call_alloc_external sz a) s = NRT_MemInfo_alloc_external sz a s"
| "call (Call_alloc_dtor_safe sz d) s = NRT_MemInfo_alloc_dtor_safe sz d s"
| "call (Call_alloc_safe sz) s = NRT_MemInfo_alloc_safe sz s"
| "call (Call_alloc_aligned sz align) s = NRT_MemInfo_alloc_aligned sz align s"
| "call (Call_alloc_safe_aligned sz align) s = NRT_MemInfo_alloc_safe_aligned sz align s"
| "call (Call_alloc_safe_aligned_external sz align a) s =
     NRT_MemInfo_alloc_safe_aligned_external sz align a s"
| "call (Call_new_varsize sz) s = NRT_MemInfo_new_varsize sz s"
| "call (Call_new_varsize_dtor sz d) s = NRT_MemInfo_new_varsize_dtor sz d s"
| "call (Call_manage_memory p d) s = nrt_manage_memory p d s"
| "call (Call_acquire mi) s = returns_void (NRT_MemInfo_acquire mi s)"
| "call (Call_release mi) s = returns_void (NRT_MemInfo_release mi s)"
| "call (Call_varsize_alloc mi sz) s = NRT_MemInfo_varsize_alloc mi sz s"
| "call (Call_varsize_realloc mi sz) s = NRT_MemInfo_varsize_realloc mi sz s"
| "call (Call_varsize_free mi ptr) s = returns_void (NRT_MemInfo_varsize_free mi ptr s)"
| "call Call_shutdown s = Inr (0, NRT_MemSys_shutdown s)"

fun run :: "api_call list \<Rightarrow> world \<Rightarrow> error + world" where
  "run [] s = Inr s"
| "run (c # cs) s = (case call c s of Inl e \<Rightarrow> Inl e | Inr (p, t) \<Rightarrow> run cs t)"

text \<open>The block of a new handle lies in the address space: its base, the header and
  \<open>n\<close> more bytes do not reach past the last address.\<close>

definition block_fits :: "nat \<Rightarrow> error + (addr \<times> world) \<Rightarrow> bool" where
  "block_fits n r =
     (case r of Inl e \<Rightarrow> True | Inr (mi, t) \<Rightarrow> unat mi + unat sizeof_MemInfo + n < 2 ^ 64)"

definition returns_nonnull :: "error + (addr \<times> world) \<Rightarrow> bool" where
  "returns_nonnull r = (case r of Inl e \<Rightarrow> True | Inr (p, t) \<Rightarrow> p \<noteq> 0)"

text \<open>The calls that keep data pointers: allocations whose block lies in the address
  space, foreign memory that is not null, resizes that succeed, and
  \<^verbatim>\<open>NRT_MemInfo_varsize_free\<close> of a pointer other than the handle's current data
  pointer.\<close>

fun admissible :: "api_call \<Rightarrow> world \<Rightarrow> bool" where
  "admissible (Call_alloc sz) s = block_fits 0 (NRT_MemInfo_alloc sz s)"
| "admissible (Call_alloc_external sz a) s = block_fits 0 (NRT_MemInfo_alloc_external sz a s)"
| "admissible (Call_alloc_dtor_safe sz d) s = block_fits 0 (NRT_MemInfo_alloc_dtor_safe sz d s)"
| "admissible (Call_alloc_safe sz) s = block_fits 0 (NRT_MemInfo_alloc_safe sz s)"
| "admissible (Call_alloc_aligned sz align) s =
     block_fits (unat align) (NRT_MemInfo_alloc_aligned sz align s)"
| "admissible (Call_alloc_safe_aligned sz align) s =
     block_fits (unat align) (NRT_MemInfo_alloc_safe_aligned sz align s)"
| "admissible (Call_alloc_safe_aligned_external sz align a) s =
     block_fits (unat align) (NRT_MemInfo_alloc_safe_aligned_external sz align a s)"
| "admissible (Call_new_varsize sz) s = True"
| "admissible (Call_new_varsize_dtor sz d) s = True"
| "admissible (Call_manage_memory p d) s = (p \<noteq> 0)"
| "admissible (Call_acquire mi) s = True"
| "admissible (Call_release mi) s = True"
| "admissible (Call_varsize_alloc mi sz) s = returns_nonnull (NRT_MemInfo_varsize_alloc mi sz s)"
| "admissible (Call_varsize_realloc mi sz) s =
     returns_nonnull (NRT_MemInfo_varsize_realloc mi sz s)"
| "admissible (Call_varsize_free mi ptr) s =
     (case heap s mi of None \<Rightarrow> True | Some m \<Rightarrow> ptr \<noteq> data m)"
| "admissible Call_shutdown s = True"

fun admissible_run :: "api_call list \<Rightarrow> world \<Rightarrow> bool" where
  "admissible_run [] s = True"
| "admissible_run (c # cs) s =
     (admissible c s \<and>
      (case call c s of Inl e \<Rightarrow> True | Inr (p, t) \<Rightarrow> admissible_run cs t))"

text \<open>A sequence through every constructor and operation, and the results of the
  allocator it runs against.\<close>

definition example_results :: "addr list" where
  "example_results =
     [0x1000, 0x1100, 0x1200, 0x1300, 0x1408, 0x1508, 0x1608, 0x2000, 0x1700, 0x2100, 0x1800,
      0x1900, 0x2200, 0x2300]"

definition example_calls :: "api_call list" where
  "example_calls =
     [Call_alloc 16,
      Call_alloc_external 16 (Some sample_external_allocator),
      Call_alloc_dtor_safe 16 (Some (extern_fn 9)),
      Call_alloc_safe 16,
      Call_alloc_aligned 100 64,
      Call_alloc_safe_aligned 100 64,
      Call_alloc_safe_aligned_external 100 64 (Some sample_external_allocator),
      Call_new_varsize 16,
      Call_new_varsize_dtor 16 (Some (extern_fn 8)),
      Call_manage_memory 0x5000 (Some (extern_fn 7)),
      Call_acquire 0x1700,
      Call_release 0x1700,
      Call_varsize_alloc 0x1700 64,
      Call_varsize_realloc 0x1700 128,
      Call_varsize_free 0x1700 0x2200,
      Call_release 0x1000,
      Call_shutdown]"

section \<open>Properties\<close>

lemmas eval_defs = start_def NRT_MemSys_init_def NRT_MemSys_shutdown_def
  next_result_def log_call_def extern_call_def call_malloc_def call_realloc_def call_free_def
  NRT_Allocate_External_def NRT_Allocate_def NRT_Reallocate_def NRT_Free_def
  sample_external_malloc_def sample_external_free_def call_ext_malloc_def call_ext_free_def
  NRT_MemInfo_init_def NRT_MemInfo_new_def nrt_allocate_meminfo_and_data_def
  sizeof_MemInfo_def

subsection \<open>Example handles\<close>

lemma plain_handle:
  "\<exists>s. NRT_MemInfo_alloc 16 (start [0x1000]) = Inr (0x1000, s) \<and>
       heap s 0x1000 = Some \<lparr>refct = 1, dtor = None, dtor_info = NULL, data = 0x1030,
                               size_mi = 16, external_allocator = None\<rparr>"
  by (simp add: eval_defs NRT_MemInfo_alloc_def)

subsection \<open>Rebinding the allocator\<close>

text \<open>
  C6. \<^verbatim>\<open>NRT_MemSys_set_allocator\<close> ends the process (through \<^verbatim>\<open>nrt_fatal_error\<close>) if
  and only if one of the three functions differs from the current binding and the
  counters are unbalanced (\<open>stats_alloc \<noteq> stats_free\<close> or
  \<open>stats_mi_alloc \<noteq> stats_mi_free\<close>); in every other case it returns with the three
  bindings replaced and nothing else changed.
\<close>

theorem set_allocator_aborts_iff:
  "(aborts (NRT_MemSys_set_allocator mf rf ff s) \<longleftrightarrow>
      (mf \<noteq> allocator_malloc (TheMSys s) \<or> rf \<noteq> allocator_realloc (TheMSys s) \<or>
       ff \<noteq> allocator_free (TheMSys s)) \<and>
      (stats_alloc (TheMSys s) \<noteq> stats_free (TheMSys s) \<or>
       stats_mi_alloc (TheMSys s) \<noteq> stats_mi_free (TheMSys s))) \<and>
   (aborts (NRT_MemSys_set_allocator mf rf ff s) \<longrightarrow>
      NRT_MemSys_set_allocator mf rf ff s =
        Inl (Fatal ''cannot change allocator while blocks are allocated'')) \<and>
   (\<not> aborts (NRT_MemSys_set_allocator mf rf ff s) \<longrightarrow>
      NRT_MemSys_set_allocator mf rf ff s =
        Inr (s\<lparr>TheMSys := (TheMSys s)\<lparr>allocator_malloc := mf, allocator_realloc := rf,
                              allocator_free := ff\<rparr>\<rparr>))"
  by (simp add: NRT_MemSys_set_allocator_def nrt_fatal_error_def aborts_def)

theorem set_allocator_aborts_iff_witness:
  "aborts (NRT_MemSys_set_allocator (extern_fn 7) (extern_fn 1) (extern_fn 2)
             (snd (NRT_Allocate 8 (start [0x1000])))) \<and>
   NRT_MemSys_set_allocator (extern_fn 7) (extern_fn 8) (extern_fn 9) (start []) =
     Inr ((start [])\<lparr>TheMSys := (TheMSys (start []))\<lparr>allocator_malloc := extern_fn 7,
                              allocator_realloc := extern_fn 8, allocator_free := extern_fn 9\<rparr>\<rparr>)"
  using set_allocator_aborts_iff
          [of "extern_fn 7" "extern_fn 1" "extern_fn 2" "snd (NRT_Allocate 8 (start [0x1000]))"]
        set_allocator_aborts_iff [of "extern_fn 7" "extern_fn 8" "extern_fn 9" "start []"]
  by (simp add: eval_defs)

subsection \<open>Resizing a handle that is not variable-size\<close>

text \<open>
  C7. \<^verbatim>\<open>NRT_MemInfo_varsize_alloc\<close> and \<^verbatim>\<open>NRT_MemInfo_varsize_realloc\<close> on a handle
  whose destructor pointer is not \<^verbatim>\<open>nrt_varsize_dtor\<close> end the process through
  \<^verbatim>\<open>nrt_fatal_error\<close>: nothing is returned to the caller.
\<close>

theorem varsize_resize_needs_varsize_handle:
  "heap s mi = Some m \<Longrightarrow> dtor m \<noteq> Some nrt_varsize_dtor_fp \<Longrightarrow>
   NRT_MemInfo_varsize_alloc mi sz s =
     Inl (Fatal ''ERROR: NRT_MemInfo_varsize_alloc called with a non varsize-allocated meminfo'') \<and>
   NRT_MemInfo_varsize_realloc mi sz s =
     Inl (Fatal ''ERROR: NRT_MemInfo_varsize_realloc called with a non varsize-allocated meminfo'')"
  by (simp add: NRT_MemInfo_varsize_alloc_def NRT_MemInfo_varsize_realloc_def
      nrt_fatal_error_def)

theorem varsize_resize_needs_varsize_handle_witness:
  "\<exists>s. NRT_MemInfo_alloc 16 (start [0x1000]) = Inr (0x1000, s) \<and>
       NRT_MemInfo_varsize_alloc 0x1000 64 s =
         Inl (Fatal ''ERROR: NRT_MemInfo_varsize_alloc called with a non varsize-allocated meminfo'') \<and>
       NRT_MemInfo_varsize_realloc 0x1000 64 s =
         Inl (Fatal ''ERROR: NRT_MemInfo_varsize_realloc called with a non varsize-allocated meminfo'')"
proof -
  obtain s where a: "NRT_MemInfo_alloc 16 (start [0x1000]) = Inr (0x1000, s)"
    and h: "heap s 0x1000 = Some \<lparr>refct = 1, dtor = None, dtor_info = NULL, data = 0x1030,
                                    size_mi = 16, external_allocator = None\<rparr>"
    using plain_handle by blast
  from varsize_resize_needs_varsize_handle [OF h, of 64] a show ?thesis
    by simp
qed

subsection \<open>Basic facts\<close>

lemmas dtor_defs = call_dtor_def call_plain_dtor_def nrt_internal_custom_dtor_safe_def
  nrt_internal_dtor_safe_def nrt_varsize_dtor_def nrt_manage_memory_dtor_def

lemma as_function_Some: "as_function info = Inr (Some d) \<Longrightarrow> info = FunPtr d"
  by (cases info) (auto split: if_splits)

lemma as_function_None: "as_function info = Inr None \<Longrightarrow> info = NULL"
  by (cases info) (auto simp: NULL_def split: if_splits)

lemma call_dtor_effect:
  assumes "call_dtor f ptr sz info s = Inr s'"
  shows "\<exists>evs. trace s' = trace s @ Dtor f ptr sz info # evs \<and> Dtor f ptr sz info \<notin> set evs"
    and "shutting (TheMSys s') = shutting (TheMSys s)"
    and "heap s' = heap s \<or> heap s' = (heap s)(ptr := None)"
  using assms
  by (auto simp: dtor_defs log_call_def extern_call_def NRT_Free_def call_free_def NULL_def Let_def
      dest!: as_function_Some as_function_None
      split: if_splits sum.splits option.splits)

lemma destroy_effect:
  assumes "heap s mi = Some m"
  shows "\<exists>s'. NRT_MemInfo_destroy mi s = Inr s' \<and>
     heap s' = (heap s)(mi := None) \<and>
     trace s' = trace s @
       (case external_allocator m of
          None \<Rightarrow> [Free (allocator_free (TheMSys s)) mi]
        | Some a \<Rightarrow> ExtFree (free a) mi (opaque_data a) #
            (if free a = sample_external_free_fp then [Free (allocator_free (TheMSys s)) mi]
             else [])) \<and>
     bytes s' = foreign s (case external_allocator m of
          None \<Rightarrow> Free (allocator_free (TheMSys s)) mi
        | Some a \<Rightarrow> if free a = sample_external_free_fp then Free (allocator_free (TheMSys s)) mi
             else ExtFree (free a) mi (opaque_data a)) (bytes s) \<and>
     TheMSys s' = (TheMSys s)\<lparr>stats_free := stats_free (TheMSys s) + 1,
                               stats_mi_free := stats_mi_free (TheMSys s) + 1\<rparr>"
  using assms
  by (auto simp: NRT_MemInfo_destroy_def NRT_dealloc_def NRT_Free_def call_free_def
      call_ext_free_def sample_external_free_def log_call_def extern_call_def Let_def
      split: option.splits)



lemma release_not_last:
  assumes "heap s mi = Some m" "refct m \<noteq> 0" "refct m \<noteq> 1"
  shows "NRT_MemInfo_release mi s = Inr (s\<lparr>heap := (heap s)(mi \<mapsto> m\<lparr>refct := refct m - 1\<rparr>)\<rparr>)"
  using assms by (simp add: NRT_MemInfo_release_def word_greater_zero_iff Let_def)

lemma release_last:
  assumes "heap s mi = Some m" "refct m = 1"
  shows "NRT_MemInfo_release mi s =
           NRT_MemInfo_call_dtor mi (s\<lparr>heap := (heap s)(mi \<mapsto> m\<lparr>refct := 0\<rparr>)\<rparr>)"
  using assms by (simp add: NRT_MemInfo_release_def Let_def)





lemmas eval_defs2 = eval_defs dtor_defs NRT_MemInfo_alloc_dtor_safe_def MIN_sz_def
  NRT_MemInfo_release_def NRT_MemInfo_acquire_def NRT_MemInfo_call_dtor_def
  NRT_MemInfo_destroy_def NRT_dealloc_def NULL_def

subsection \<open>Reference counts and the destructor\<close>










subsection \<open>Release after shutdown\<close>

text \<open>
  C8. \<^verbatim>\<open>NRT_MemSys_shutdown\<close> sets the shutdown flag. While it is set, the release that
  takes the refcount of a handle from 1 to 0 returns, calls no destructor, hands the
  handle's block to the allocator it came from (the external allocator's \<^verbatim>\<open>free\<close> with
  its \<^verbatim>\<open>opaque_data\<close> when the handle has one, the global \<^verbatim>\<open>free\<close> otherwise), and adds 1
  to \<^verbatim>\<open>stats_free\<close> and to \<^verbatim>\<open>stats_mi_free\<close>, leaving the rest of \<^verbatim>\<open>TheMSys\<close> as it was.
\<close>

theorem release_while_shutting:
  "shutting (TheMSys (NRT_MemSys_shutdown s0)) \<noteq> 0 \<and>
   (heap s mi = Some m \<and> refct m = 1 \<and> shutting (TheMSys s) \<noteq> 0 \<longrightarrow>
     (\<exists>s'. NRT_MemInfo_release mi s = Inr s' \<and>
        heap s' = (heap s)(mi := None) \<and>
        trace s' = trace s @
          (case external_allocator m of
             None \<Rightarrow> [Free (allocator_free (TheMSys s)) mi]
           | Some a \<Rightarrow> ExtFree (free a) mi (opaque_data a) #
               (if free a = sample_external_free_fp
                then [Free (allocator_free (TheMSys s)) mi] else [])) \<and>
        filter is_Dtor (trace s') = filter is_Dtor (trace s) \<and>
        TheMSys s' = (TheMSys s)\<lparr>stats_free := stats_free (TheMSys s) + 1,
                                  stats_mi_free := stats_mi_free (TheMSys s) + 1\<rparr>))"
proof (intro conjI impI)
  show "shutting (TheMSys (NRT_MemSys_shutdown s0)) \<noteq> 0"
    by (simp add: NRT_MemSys_shutdown_def)
next
  assume a: "heap s mi = Some m \<and> refct m = 1 \<and> shutting (TheMSys s) \<noteq> 0"
  let ?s0 = "s\<lparr>heap := (heap s)(mi \<mapsto> m\<lparr>refct := 0\<rparr>)\<rparr>"
  have "NRT_MemInfo_release mi s = NRT_MemInfo_call_dtor mi ?s0"
    using a by (simp add: release_last)
  also have "\<dots> = NRT_MemInfo_destroy mi ?s0"
    using a by (simp add: NRT_MemInfo_call_dtor_def)
  finally have r: "NRT_MemInfo_release mi s = NRT_MemInfo_destroy mi ?s0" .
  from destroy_effect [of ?s0 mi "m\<lparr>refct := 0\<rparr>"] r
  show "\<exists>s'. NRT_MemInfo_release mi s = Inr s' \<and>
        heap s' = (heap s)(mi := None) \<and>
        trace s' = trace s @
          (case external_allocator m of
             None \<Rightarrow> [Free (allocator_free (TheMSys s)) mi]
           | Some a \<Rightarrow> ExtFree (free a) mi (opaque_data a) #
               (if free a = sample_external_free_fp
                then [Free (allocator_free (TheMSys s)) mi] else [])) \<and>
        filter is_Dtor (trace s') = filter is_Dtor (trace s) \<and>
        TheMSys s' = (TheMSys s)\<lparr>stats_free := stats_free (TheMSys s) + 1,
                                  stats_mi_free := stats_mi_free (TheMSys s) + 1\<rparr>"
    by (auto split: option.splits)
qed

lemmas eval_defs3 = eval_defs2 NRT_MemInfo_alloc_external_def sample_external_allocator_def

lemma external_world_eval:
  "external_example = Inr (0x1000, external_world)"
  "heap external_world 0x1000 =
     Some \<lparr>refct = 1, dtor = None, dtor_info = NULL, data = 0x1030, size_mi = 16,
           external_allocator = Some sample_external_allocator\<rparr>"
  "trace external_world =
     [ExtMalloc sample_external_malloc_fp 64 sample_external_opaque_data_ref,
      Malloc (extern_fn 0) 64]"
  "TheMSys external_world =
     \<lparr>shutting = 0, stats_alloc = 1, stats_free = 0, stats_mi_alloc = 1, stats_mi_free = 0,
      allocator_malloc = extern_fn 0, allocator_realloc = extern_fn 1,
      allocator_free = extern_fn 2\<rparr>"
  by (simp_all add: external_world_def external_example_def eval_defs3)

theorem release_while_shutting_witness:
  "\<not> isl (NRT_MemInfo_release 0x1000 (NRT_MemSys_shutdown external_world)) \<and>
   trace (projr (NRT_MemInfo_release 0x1000 (NRT_MemSys_shutdown external_world))) =
     [ExtMalloc sample_external_malloc_fp 64 sample_external_opaque_data_ref,
      Malloc (extern_fn 0) 64,
      ExtFree sample_external_free_fp 0x1000 sample_external_opaque_data_ref,
      Free (extern_fn 2) 0x1000] \<and>
   stats_free (TheMSys (projr (NRT_MemInfo_release 0x1000 (NRT_MemSys_shutdown external_world)))) = 1 \<and>
   stats_mi_free (TheMSys (projr (NRT_MemInfo_release 0x1000 (NRT_MemSys_shutdown external_world)))) = 1"
proof -
  let ?s = "NRT_MemSys_shutdown external_world"
  have h: "heap ?s 0x1000 =
     Some \<lparr>refct = 1, dtor = None, dtor_info = NULL, data = 0x1030, size_mi = 16,
           external_allocator = Some sample_external_allocator\<rparr>"
    using external_world_eval(2) by (simp add: NRT_MemSys_shutdown_def)
  from release_while_shutting [where s = ?s and mi = "0x1000", THEN conjunct2, rule_format, OF conjI [OF h]]
  show ?thesis
    by (auto simp: external_world_eval(3,4) NRT_MemSys_shutdown_def sample_external_allocator_def)
qed

subsection \<open>The safe fill\<close>


lemma Allocate_plain:
  "\<exists>s'. NRT_Allocate_External n None s = (fst (next_result s), s') \<and>
        trace s' = trace s @ [Malloc (allocator_malloc (TheMSys s)) n] \<and> heap s' = heap s"
  by (simp add: NRT_Allocate_External_def call_malloc_def next_result_def extern_call_def
      log_call_def split: list.splits)

















subsection \<open>Aligned allocation\<close>

lemma pow2_pos: "k < LENGTH('a) \<Longrightarrow> (0 :: 'a::len word) < 2 ^ k"
  by (simp add: word_greater_zero_iff exp_eq_zero_iff)

lemma unat_pow2: "k < LENGTH('a) \<Longrightarrow> unat ((2::'a::len word) ^ k) = 2 ^ k"
  using uint_2p [OF pow2_pos, of k, where 'a = 'a] by (simp add: unat_eq_nat_uint nat_power_eq)

lemma unat_mod_pow2: "k < 64 \<Longrightarrow> unat ((x :: 64 word) mod 2 ^ k) = unat x mod 2 ^ k"
  by (simp add: unat_mod_distrib unat_pow2)

lemma ucast_pow2: "k < 32 \<Longrightarrow> (ucast ((2::32 word) ^ k) :: 64 word) = 2 ^ k"
proof -
  assume k: "k < 32"
  have "(ucast (push_bit k (1 :: 32 word)) :: 64 word) = push_bit k 1"
    by (rule bit_word_eqI) (use k in \<open>auto simp: bit_simps\<close>)
  then show ?thesis by (simp add: push_bit_eq_mult)
qed

lemma sub_mod_pow2: "(b :: 64 word) - b mod 2 ^ k = push_bit k (drop_bit k b)"
proof -
  have "push_bit k (drop_bit k b) + take_bit k b = b" by (rule bits_ident)
  then have "push_bit k (drop_bit k b) + b mod 2 ^ k = b" by (simp add: take_bit_eq_mod)
  then show ?thesis by (simp add: algebra_simps)
qed

lemma align_up_aligned:
  fixes b :: "64 word"
  shows "(b + (if b mod 2 ^ k = 0 then 0 else 2 ^ k - b mod 2 ^ k)) mod 2 ^ k = 0"
proof (cases "b mod 2 ^ k = 0")
  case True
  then show ?thesis by simp
next
  case False
  have "b + (2 ^ k - b mod 2 ^ k) = (b - b mod 2 ^ k) + 2 ^ k"
    by simp
  also have "\<dots> = push_bit k (drop_bit k b + 1)"
    by (simp add: sub_mod_pow2 push_bit_eq_mult algebra_simps)
  finally have "(b + (2 ^ k - b mod 2 ^ k)) mod 2 ^ k = take_bit k (push_bit k (drop_bit k b + 1))"
    by (simp add: take_bit_eq_mod)
  also have "\<dots> = 0"
    by (simp add: take_bit_push_bit)
  finally show ?thesis using False by simp
qed

lemma offset_less:
  fixes b :: "64 word"
  assumes k: "k < 64"
  shows "(if b mod 2 ^ k = 0 then 0 else 2 ^ k - b mod 2 ^ k) < 2 ^ k"
proof (cases "b mod 2 ^ k = 0")
  case True
  with k show ?thesis by (simp add: pow2_pos)
next
  case False
  have lt: "b mod 2 ^ k < 2 ^ k" using k by (simp add: word_mod_less_divisor pow2_pos)
  then have "unat (2 ^ k - b mod 2 ^ k) = unat ((2::64 word) ^ k) - unat (b mod 2 ^ k)"
    by (simp add: unat_sub)
  moreover have "0 < unat (b mod 2 ^ k)" using False by (simp add: unat_gt_0)
  moreover have "unat (b mod 2 ^ k) < unat ((2::64 word) ^ k)" using lt by (simp add: word_less_nat_alt)
  ultimately have "2 ^ k - b mod 2 ^ k < 2 ^ k" by (simp add: word_less_nat_alt)
  with False show ?thesis by simp
qed

lemma align_up_least:
  fixes b j :: "64 word"
  assumes k: "k < 64" and j: "j < (if b mod 2 ^ k = 0 then 0 else 2 ^ k - b mod 2 ^ k)"
  shows "(b + j) mod 2 ^ k \<noteq> 0"
proof -
  from j have r: "b mod 2 ^ k \<noteq> 0" and j': "j < 2 ^ k - b mod 2 ^ k"
    by (auto split: if_splits)
  have lt: "b mod 2 ^ k < 2 ^ k" using k by (simp add: word_mod_less_divisor pow2_pos)
  then have "unat (2 ^ k - b mod 2 ^ k) = 2 ^ k - unat b mod 2 ^ k"
    using k by (simp add: unat_sub unat_pow2 unat_mod_pow2)
  with j' have jn: "unat j < 2 ^ k - unat b mod 2 ^ k" by (simp add: word_less_nat_alt)
  from r have rn: "0 < unat b mod 2 ^ k"
    using k by (simp add: unat_gt_0 [symmetric] unat_mod_pow2)
  have dv: "(2::nat) ^ k dvd 2 ^ 64" by (rule le_imp_power_dvd) (use k in simp)
  have "unat (b + j) = (unat b + unat j) mod 2 ^ 64"
    by (simp add: unat_word_ariths(1))
  with k have "unat ((b + j) mod 2 ^ k) = ((unat b + unat j) mod 2 ^ 64) mod 2 ^ k"
    by (simp only: unat_mod_pow2)
  also have "\<dots> = (unat b + unat j) mod 2 ^ k"
    using dv by (rule mod_mod_cancel)
  also have "\<dots> = (unat b mod 2 ^ k + unat j) mod 2 ^ k"
    by (simp add: mod_add_left_eq)
  also have "\<dots> = unat b mod 2 ^ k + unat j"
    using jn by simp
  finally have "0 < unat ((b + j) mod 2 ^ k)" using rn by simp
  then show ?thesis by (simp add: unat_gt_0)
qed


lemma align_call:
  assumes k: "k < 32" and a: "align = 2 ^ k"
  shows "\<exists>mi s' offset.
     NRT_Allocate_External (sizeof_MemInfo + (sz + ucast (2 * align))) allocator s = (mi, s') \<and>
     nrt_allocate_meminfo_and_data_align sz align allocator s =
       Inr (mi + sizeof_MemInfo + offset, mi, s') \<and>
     (mi + sizeof_MemInfo + offset) mod ucast align = 0 \<and>
     unat (mi + sizeof_MemInfo + offset) mod unat align = 0 \<and>
     offset < ucast align \<and>
     (\<forall>j. j < offset \<longrightarrow> (mi + sizeof_MemInfo + j) mod ucast align \<noteq> 0)"
proof -
  obtain mi s' where al:
    "NRT_Allocate_External (sizeof_MemInfo + (sz + ucast (2 * align))) allocator s = (mi, s')"
    by (cases "NRT_Allocate_External (sizeof_MemInfo + (sz + ucast (2 * align))) allocator s")
  have k64: "k < 64" using k by simp
  have A: "(ucast align :: 64 word) = 2 ^ k" using k a by (simp add: ucast_pow2)
  have nz: "align \<noteq> 0" using k a by simp
  let ?b = "mi + sizeof_MemInfo"
  let ?off = "if ?b mod 2 ^ k = 0 then 0 else 2 ^ k - ?b mod 2 ^ k"
  have r: "nrt_allocate_meminfo_and_data_align sz align allocator s = Inr (?b + ?off, mi, s')"
    using al nz
    by (simp add: nrt_allocate_meminfo_and_data_align_def nrt_allocate_meminfo_and_data_def
        Let_def A)
  have z: "(?b + ?off) mod 2 ^ k = 0" by (rule align_up_aligned)
  then have "unat ((?b + ?off) mod 2 ^ k) = 0" by simp
  then have zn: "unat (?b + ?off) mod unat align = 0"
    using k k64 a by (simp add: unat_mod_pow2 unat_pow2)
  have lt: "?off < 2 ^ k" using k64 by (rule offset_less)
  have least: "\<forall>j. j < ?off \<longrightarrow> (?b + j) mod 2 ^ k \<noteq> 0"
    by (intro allI impI) (rule align_up_least [OF k64])
  from al r z zn lt least show ?thesis
    unfolding A by (intro exI conjI)
qed

text \<open>
  For an alignment \<open>align = 2 ^ k\<close> that an \<^verbatim>\<open>unsigned\<close> holds and an allocator that
  returns a non-null block at \<open>base\<close>, \<^verbatim>\<open>NRT_MemInfo_alloc_aligned\<close> returns a handle whose
  data pointer is \<open>base + sizeof(NRT_MemInfo) + offset\<close>, with \<open>offset\<close> below \<open>align\<close> the
  smallest forward offset that makes it a multiple of \<open>align\<close>. The block it requested has
  \<^verbatim>\<open>sizeof(NRT_MemInfo) + size + 2 * align\<close> bytes, the product taken in \<^verbatim>\<open>unsigned\<close>: that
  is \<open>2 * align\<close> for \<open>k < 31\<close>.
\<close>

lemma alloc_aligned_data:
  assumes k: "k < 32" and a: "align = 2 ^ k" and n: "fst (next_result s) \<noteq> 0"
  shows "\<exists>s' m offset.
     NRT_MemInfo_alloc_aligned sz align s = Inr (fst (next_result s), s') \<and>
     heap s' (fst (next_result s)) = Some m \<and> refct m = 1 \<and> size_mi m = sz \<and>
     data m = fst (next_result s) + sizeof_MemInfo + offset \<and>
     offset < ucast align \<and>
     (\<forall>j. j < offset \<longrightarrow> (fst (next_result s) + sizeof_MemInfo + j) mod ucast align \<noteq> 0) \<and>
     data m mod ucast align = 0 \<and>
     unat (data m) mod unat align = 0 \<and>
     trace s' = trace s @
       [Malloc (allocator_malloc (TheMSys s)) (sizeof_MemInfo + (sz + ucast (2 * align)))]"
proof -
  let ?b = "fst (next_result s)"
  from Allocate_plain [of "sizeof_MemInfo + (sz + ucast (2 * align))" s] obtain s1 where
    al: "NRT_Allocate_External (sizeof_MemInfo + (sz + ucast (2 * align))) None s = (?b, s1)"
    and tr: "trace s1 = trace s @
       [Malloc (allocator_malloc (TheMSys s)) (sizeof_MemInfo + (sz + ucast (2 * align)))]"
    by blast
  from align_call [OF k a, of sz None s] obtain mi1 s2 offset where
    al2: "NRT_Allocate_External (sizeof_MemInfo + (sz + ucast (2 * align))) None s = (mi1, s2)"
    and r: "nrt_allocate_meminfo_and_data_align sz align None s =
          Inr (mi1 + sizeof_MemInfo + offset, mi1, s2)"
    and z: "(mi1 + sizeof_MemInfo + offset) mod ucast align = 0"
           "unat (mi1 + sizeof_MemInfo + offset) mod unat align = 0"
    and lt: "offset < ucast align"
    and least: "\<forall>j. j < offset \<longrightarrow> (mi1 + sizeof_MemInfo + j) mod ucast align \<noteq> 0"
    by (elim exE conjE) (rule that; assumption)
  from al al2 have e: "mi1 = ?b" "s2 = s1" by simp_all
  let ?m = "\<lparr>refct = 1, dtor = None, dtor_info = NULL,
             data = ?b + sizeof_MemInfo + offset, size_mi = sz, external_allocator = None\<rparr>"
  let ?t = "s1\<lparr>heap := (heap s1)(?b \<mapsto> ?m),
               TheMSys := (TheMSys s1)\<lparr>stats_mi_alloc := stats_mi_alloc (TheMSys s1) + 1\<rparr>\<rparr>"
  have i: "NRT_MemInfo_init ?b (?b + sizeof_MemInfo + offset) sz None NULL None s1 = Inr ?t"
    using n by (simp add: NRT_MemInfo_init_def)
  have c: "NRT_MemInfo_alloc_aligned sz align s = Inr (?b, ?t)"
    using r [unfolded e] i by (simp add: NRT_MemInfo_alloc_aligned_def)
  show ?thesis
    apply (rule exI [of _ ?t], rule exI [of _ ?m], rule exI [of _ offset])
    apply (rule conjI, rule c)
    using z lt least tr unfolding e
    apply simp
    done
qed

lemma small_align_overallocates:
  assumes "k < 31"
  shows "(ucast (2 * (2 :: 32 word) ^ k) :: 64 word) = 2 * 2 ^ k"
  using ucast_pow2 [of "Suc k"] assms by simp

text \<open>
  C10. The alignment holds for every power of two, the over-allocation does not: for
  \<open>align = 2 ^ 31\<close> the product \<^verbatim>\<open>2 * align\<close> is 0 in \<^verbatim>\<open>unsigned\<close>. A request of 100 bytes
  at that alignment asks the allocator for \<open>sizeof(NRT_MemInfo) + 100 = 148\<close> bytes and,
  given the block at \<open>0x1000\<close>, returns a handle whose data pointer is \<open>0x80000000\<close>: a
  multiple of \<open>align\<close>, and far outside the block of 148 bytes.
\<close>

theorem aligned_overallocation_wraps:
  "2 * (0x80000000 :: 32 word) = 0 \<and>
   \<not> isl (NRT_MemInfo_alloc_aligned 100 0x80000000 (start [0x1000])) \<and>
   fst (projr (NRT_MemInfo_alloc_aligned 100 0x80000000 (start [0x1000]))) = 0x1000 \<and>
   trace (snd (projr (NRT_MemInfo_alloc_aligned 100 0x80000000 (start [0x1000])))) =
     [Malloc (extern_fn 0) 148] \<and>
   map_option data
     (heap (snd (projr (NRT_MemInfo_alloc_aligned 100 0x80000000 (start [0x1000])))) 0x1000) =
     Some 0x80000000"
  by (simp add: eval_defs NRT_MemInfo_alloc_aligned_def
        nrt_allocate_meminfo_and_data_align_def NULL_def)

subsection \<open>Failed allocation\<close>

lemma next_result_log_call: "fst (next_result (log_call e s)) = fst (next_result s)"
  by (simp add: next_result_def log_call_def split: list.splits)

lemma next_result_null:
  "fst (next_result s) = 0 \<Longrightarrow> \<exists>s1. next_result s = (0, s1) \<and> heap s1 = heap s \<and>
     TheMSys s1 = TheMSys s \<and> trace s1 = trace s \<and> bytes s1 = bytes s"
  by (auto simp: next_result_def split: list.splits)

lemmas alloc_defs = NRT_Allocate_External_def NRT_Allocate_def call_ext_malloc_def
  sample_external_malloc_def call_malloc_def next_result_def extern_call_def log_call_def

lemma Allocate_External_null:
  assumes "fst (next_result s) = 0"
  shows "\<exists>s'. NRT_Allocate_External sz allocator s = (0, s') \<and> heap s' = heap s \<and>
           TheMSys s' = (TheMSys s)\<lparr>stats_alloc := stats_alloc (TheMSys s) + 1\<rparr>"
  using assms
  by (auto simp: alloc_defs split: option.splits list.splits)

lemma start_MSys:
  "TheMSys (start rs) =
     \<lparr>shutting = 0, stats_alloc = 0, stats_free = 0, stats_mi_alloc = 0, stats_mi_free = 0,
      allocator_malloc = extern_fn 0, allocator_realloc = extern_fn 1,
      allocator_free = extern_fn 2\<rparr>"
  by (simp add: start_def NRT_MemSys_init_def)

text \<open>
  C2 (as amended). When the underlying allocate call returns null,
  \<^verbatim>\<open>NRT_Allocate_External\<close> (and with it \<^verbatim>\<open>NRT_Allocate\<close>) returns null, and
  \<^verbatim>\<open>NRT_MemInfo_new_varsize\<close>, whose first allocate call is the one for the payload,
  returns a null handle when that call returns null. In both cases no MemInfo is written
  and \<^verbatim>\<open>stats_mi_alloc\<close> is unchanged, but \<^verbatim>\<open>stats_alloc\<close>, which counts allocation
  calls, has grown by 1.
\<close>

theorem failed_allocation_is_null:
  "fst (next_result s) = 0 \<Longrightarrow>
   (\<exists>s'. NRT_Allocate_External sz allocator s = (0, s') \<and> heap s' = heap s \<and>
         TheMSys s' = (TheMSys s)\<lparr>stats_alloc := stats_alloc (TheMSys s) + 1\<rparr>) \<and>
   (\<exists>s'. NRT_Allocate sz s = (0, s') \<and> heap s' = heap s \<and>
         TheMSys s' = (TheMSys s)\<lparr>stats_alloc := stats_alloc (TheMSys s) + 1\<rparr>) \<and>
   (\<exists>s'. NRT_MemInfo_new_varsize sz s = Inr (0, s') \<and> heap s' = heap s \<and>
         TheMSys s' = (TheMSys s)\<lparr>stats_alloc := stats_alloc (TheMSys s) + 1\<rparr>)"
proof -
  assume n: "fst (next_result s) = 0"
  from Allocate_External_null [OF n, of sz None]
  have a: "\<exists>s'. NRT_Allocate sz s = (0, s') \<and> heap s' = heap s \<and>
         TheMSys s' = (TheMSys s)\<lparr>stats_alloc := stats_alloc (TheMSys s) + 1\<rparr>"
    by (simp add: NRT_Allocate_def)
  then have "\<exists>s'. NRT_MemInfo_new_varsize sz s = Inr (0, s') \<and> heap s' = heap s \<and>
         TheMSys s' = (TheMSys s)\<lparr>stats_alloc := stats_alloc (TheMSys s) + 1\<rparr>"
    by (auto simp: NRT_MemInfo_new_varsize_def)
  with Allocate_External_null [OF n, of sz allocator] a show ?thesis
    by simp
qed

theorem failed_allocation_is_null_witness:
  "fst (NRT_Allocate_External 16 (Some sample_external_allocator) (start [])) = 0 \<and>
   stats_alloc (TheMSys (snd (NRT_Allocate_External 16 (Some sample_external_allocator)
                                 (start [])))) = 1 \<and>
   fst (NRT_Allocate 16 (start [0])) = 0 \<and>
   stats_alloc (TheMSys (snd (NRT_Allocate 16 (start [0])))) = 1 \<and>
   \<not> isl (NRT_MemInfo_new_varsize 16 (start [0])) \<and>
   fst (projr (NRT_MemInfo_new_varsize 16 (start [0]))) = 0 \<and>
   stats_alloc (TheMSys (snd (projr (NRT_MemInfo_new_varsize 16 (start [0]))))) = 1 \<and>
   stats_mi_alloc (TheMSys (snd (projr (NRT_MemInfo_new_varsize 16 (start [0]))))) = 0"
proof -
  have n: "fst (next_result (start [])) = 0" "fst (next_result (start [0])) = 0"
    by (simp_all add: eval_defs)
  from failed_allocation_is_null [OF n(1), of 16 "Some sample_external_allocator", THEN conjunct1]
  obtain s1 where
    "NRT_Allocate_External 16 (Some sample_external_allocator) (start []) = (0, s1)"
    "TheMSys s1 = (TheMSys (start []))\<lparr>stats_alloc := stats_alloc (TheMSys (start [])) + 1\<rparr>"
    by blast
  moreover from failed_allocation_is_null [OF n(2), of 16 None, THEN conjunct2, THEN conjunct1]
  obtain s2 where
    "NRT_Allocate 16 (start [0]) = (0, s2)"
    "TheMSys s2 = (TheMSys (start [0]))\<lparr>stats_alloc := stats_alloc (TheMSys (start [0])) + 1\<rparr>"
    by blast
  moreover from failed_allocation_is_null [OF n(2), of 16 None, THEN conjunct2, THEN conjunct2]
  obtain s3 where
    "NRT_MemInfo_new_varsize 16 (start [0]) = Inr (0, s3)"
    "TheMSys s3 = (TheMSys (start [0]))\<lparr>stats_alloc := stats_alloc (TheMSys (start [0])) + 1\<rparr>"
    by blast
  ultimately show ?thesis
    by (simp add: start_MSys)
qed

text \<open>A failed \<^verbatim>\<open>NRT_MemInfo_new_varsize\<close> returns null and has still counted the
  attempt.\<close>

theorem failed_allocation_is_counted:
  "fst (projr (NRT_MemInfo_new_varsize 16 (start []))) = 0 \<and>
   stats_alloc (TheMSys (start [])) = 0 \<and>
   stats_alloc (TheMSys (snd (projr (NRT_MemInfo_new_varsize 16 (start []))))) = 1"
  by (simp add: eval_defs NRT_MemInfo_new_varsize_def)

text \<open>The variants that put the record at the base of the block they request do not
  test the base for null before \<^verbatim>\<open>NRT_MemInfo_init\<close> writes through it.\<close>

lemma alloc_null_deref:
  assumes "fst (next_result s) = 0"
  shows "NRT_MemInfo_alloc sz s = Inl InvalidPointer"
  using Allocate_External_null [OF assms, of "sizeof_MemInfo + sz" None]
  by (auto simp: NRT_MemInfo_alloc_def nrt_allocate_meminfo_and_data_def NRT_MemInfo_init_def)

text \<open>Nor does \<^verbatim>\<open>NRT_MemInfo_new\<close>: when the payload of a variable-size handle has
  been allocated and the allocation of the record returns null, the record is written
  through the null pointer.\<close>

lemma new_varsize_record_null_deref:
  "NRT_MemInfo_new_varsize 16 (start [0x2000]) = Inl InvalidPointer"
  by (simp add: eval_defs NRT_MemInfo_new_varsize_def)

subsection \<open>The sample external allocator\<close>

text \<open>
  C4 (as amended). Through an external allocator whose \<^verbatim>\<open>malloc\<close> is
  \<^verbatim>\<open>sample_external_malloc\<close>: with a token other than the expected one
  \<^verbatim>\<open>NRT_Allocate_External\<close> returns null and the global \<^verbatim>\<open>malloc\<close> is not called; with
  the expected token the request goes to the global \<^verbatim>\<open>malloc\<close> and its result is
  returned; either way \<^verbatim>\<open>stats_alloc\<close> grows by 1 and nothing else in \<^verbatim>\<open>TheMSys\<close>
  changes. With the expected token and a non-null result
  \<^verbatim>\<open>NRT_MemInfo_alloc_external\<close> returns a handle that holds the allocator, and
  \<^verbatim>\<open>stats_mi_alloc\<close> grows by 1 as well.
\<close>

theorem sample_allocator_token:
  "malloc a = sample_external_malloc_fp \<Longrightarrow>
   (opaque_data a \<noteq> sample_external_opaque_data_ref \<longrightarrow>
      NRT_Allocate_External sz (Some a) s =
        (0, s\<lparr>trace := trace s @ [ExtMalloc sample_external_malloc_fp sz (opaque_data a)],
              TheMSys := (TheMSys s)\<lparr>stats_alloc := stats_alloc (TheMSys s) + 1\<rparr>\<rparr>)) \<and>
   (opaque_data a = sample_external_opaque_data_ref \<longrightarrow>
      (\<exists>s'. NRT_Allocate_External sz (Some a) s = (fst (next_result s), s') \<and>
            trace s' = trace s @ [ExtMalloc sample_external_malloc_fp sz (opaque_data a),
                                  Malloc (allocator_malloc (TheMSys s)) sz] \<and>
            heap s' = heap s \<and>
            TheMSys s' = (TheMSys s)\<lparr>stats_alloc := stats_alloc (TheMSys s) + 1\<rparr>)) \<and>
   (opaque_data a = sample_external_opaque_data_ref \<and> fst (next_result s) \<noteq> 0 \<longrightarrow>
      (\<exists>s'. NRT_MemInfo_alloc_external sz (Some a) s = Inr (fst (next_result s), s') \<and>
            heap s' (fst (next_result s)) =
              Some \<lparr>refct = 1, dtor = None, dtor_info = NULL,
                    data = fst (next_result s) + sizeof_MemInfo, size_mi = sz,
                    external_allocator = Some a\<rparr> \<and>
            TheMSys s' = (TheMSys s)\<lparr>stats_alloc := stats_alloc (TheMSys s) + 1,
                                      stats_mi_alloc := stats_mi_alloc (TheMSys s) + 1\<rparr>))"
  by (auto simp: alloc_defs NRT_MemInfo_alloc_external_def nrt_allocate_meminfo_and_data_def
      NRT_MemInfo_init_def split: list.splits)

theorem sample_allocator_token_witness:
  "NRT_Allocate_External 16 (Some mismatched_allocator) (start [0x1000]) =
     (0, (start [0x1000])\<lparr>trace := [ExtMalloc sample_external_malloc_fp 16 (DataPtr 0xabacad)],
           TheMSys := (TheMSys (start [0x1000]))\<lparr>stats_alloc := 1\<rparr>\<rparr>) \<and>
   fst (NRT_Allocate_External 16 (Some sample_external_allocator) (start [0x1000])) = 0x1000 \<and>
   trace (snd (NRT_Allocate_External 16 (Some sample_external_allocator) (start [0x1000]))) =
     [ExtMalloc sample_external_malloc_fp 16 sample_external_opaque_data_ref,
      Malloc (extern_fn 0) 16] \<and>
   \<not> isl (NRT_MemInfo_alloc_external 16 (Some sample_external_allocator) (start [0x1000]))"
proof -
  have n: "fst (next_result (start [0x1000])) = 0x1000" "trace (start [0x1000]) = []"
    by (simp_all add: eval_defs)
  have m: "malloc mismatched_allocator = sample_external_malloc_fp"
    "malloc sample_external_allocator = sample_external_malloc_fp"
    "opaque_data mismatched_allocator = DataPtr 0xabacad"
    "opaque_data sample_external_allocator = sample_external_opaque_data_ref"
    by (simp_all add: mismatched_allocator_def sample_external_allocator_def)
  from sample_allocator_token [OF m(1), of 16 "start [0x1000]"]
    sample_allocator_token [OF m(2), of 16 "start [0x1000]"]
  show ?thesis
    by (auto simp: n m start_MSys)
qed

text \<open>Allocation through the sample allocator moves the global counters, with the
  expected token and with a mismatched one.\<close>

theorem external_allocation_is_counted:
  "\<not> isl external_example \<and>
   stats_alloc (TheMSys (start [0x1000])) = 0 \<and> stats_mi_alloc (TheMSys (start [0x1000])) = 0 \<and>
   stats_alloc (TheMSys external_world) = 1 \<and> stats_mi_alloc (TheMSys external_world) = 1 \<and>
   fst (NRT_Allocate_External 16 (Some mismatched_allocator) (start [0x1000])) = 0 \<and>
   stats_alloc (TheMSys (snd (NRT_Allocate_External 16 (Some mismatched_allocator)
                                 (start [0x1000])))) = 1"
  by (simp add: external_world_eval start_MSys)
    (simp add: eval_defs mismatched_allocator_def sample_external_allocator_def)

text \<open>With a mismatched token \<^verbatim>\<open>NRT_MemInfo_alloc_external\<close> does not return null: it
  initialises the record through the null base.\<close>

lemma mismatched_token_null_deref:
  assumes "malloc a = sample_external_malloc_fp"
    and "opaque_data a \<noteq> sample_external_opaque_data_ref"
  shows "NRT_MemInfo_alloc_external sz (Some a) s = Inl InvalidPointer"
  using assms
  by (simp add: alloc_defs NRT_MemInfo_alloc_external_def nrt_allocate_meminfo_and_data_def
      NRT_MemInfo_init_def)

subsection \<open>A resize that fails\<close>

lemmas varsize_defs = NRT_MemInfo_new_varsize_def NRT_MemInfo_new_def NRT_MemInfo_init_def
  NRT_MemInfo_varsize_alloc_def NRT_MemInfo_varsize_realloc_def NRT_MemInfo_varsize_free_def
  NRT_Reallocate_def call_realloc_def NRT_Free_def call_free_def nrt_fatal_error_def

lemma varsize_world_eval:
  "varsize_example = Inr (0x1000, varsize_world)"
  "heap varsize_world 0x1000 =
     Some \<lparr>refct = 1, dtor = Some nrt_varsize_dtor_fp, dtor_info = NULL, data = 0x2000,
           size_mi = 16, external_allocator = None\<rparr>"
  "alloc_results varsize_world = []"
  by (simp_all add: varsize_world_def varsize_example_def eval_defs varsize_defs)

text \<open>
  C3 (as amended). When the underlying allocation fails, \<^verbatim>\<open>NRT_MemInfo_varsize_alloc\<close>
  and \<^verbatim>\<open>NRT_MemInfo_varsize_realloc\<close> on a variable-size handle return null; the handle
  record stays in place with its refcount, size, destructor and allocator unchanged and
  nothing is freed, but its data pointer has been overwritten with null.
\<close>

theorem failed_resize_nulls_data:
  "heap s mi = Some m \<Longrightarrow> dtor m = Some nrt_varsize_dtor_fp \<Longrightarrow> fst (next_result s) = 0 \<Longrightarrow>
   (\<exists>s'. NRT_MemInfo_varsize_alloc mi sz s = Inr (0, s') \<and>
         heap s' = (heap s)(mi \<mapsto> m\<lparr>data := 0\<rparr>) \<and>
         trace s' = trace s @ [Malloc (allocator_malloc (TheMSys s)) sz]) \<and>
   (\<exists>s'. NRT_MemInfo_varsize_realloc mi sz s = Inr (0, s') \<and>
         heap s' = (heap s)(mi \<mapsto> m\<lparr>data := 0\<rparr>) \<and>
         trace s' = trace s @ [Realloc (allocator_realloc (TheMSys s)) (data m) sz])"
  by (auto simp: alloc_defs varsize_defs Let_def split: list.splits)

theorem failed_resize_nulls_data_witness:
  "NRT_MemInfo_varsize_alloc 0x1000 64 varsize_world =
     Inr (0, snd (projr (NRT_MemInfo_varsize_alloc 0x1000 64 varsize_world))) \<and>
   heap (snd (projr (NRT_MemInfo_varsize_alloc 0x1000 64 varsize_world))) 0x1000 =
     Some \<lparr>refct = 1, dtor = Some nrt_varsize_dtor_fp, dtor_info = NULL, data = 0,
           size_mi = 16, external_allocator = None\<rparr>"
proof -
  have n: "fst (next_result varsize_world) = 0"
    by (simp add: next_result_def varsize_world_eval(3))
  from failed_resize_nulls_data [OF varsize_world_eval(2) _ n, of 64]
  show ?thesis by auto
qed

text \<open>A failed \<^verbatim>\<open>NRT_MemInfo_varsize_alloc\<close> on the example handle replaces its data
  pointer \<open>0x2000\<close> by null.\<close>

theorem failed_resize_loses_data_pointer:
  "map_option data (heap varsize_world 0x1000) = Some 0x2000 \<and>
   fst (projr (NRT_MemInfo_varsize_alloc 0x1000 64 varsize_world)) = 0 \<and>
   map_option data
     (heap (snd (projr (NRT_MemInfo_varsize_alloc 0x1000 64 varsize_world))) 0x1000) = Some 0"
  by (simp add: varsize_world_eval(2))
    (simp add: varsize_world_def varsize_example_def eval_defs varsize_defs)

subsection \<open>The data pointer of a live handle\<close>

lemma header_end_nonnull:
  fixes mi :: addr
  assumes "unat mi + unat sizeof_MemInfo + unat off < 2 ^ 64"
  shows "mi + sizeof_MemInfo + off \<noteq> 0"
proof -
  have "unat (mi + sizeof_MemInfo) = unat mi + unat sizeof_MemInfo"
    using assms by (subst unat_add_lem [symmetric]) simp
  moreover have "unat (mi + sizeof_MemInfo + off) = unat (mi + sizeof_MemInfo) + unat off"
    using assms calculation by (subst unat_add_lem [symmetric]) simp
  ultimately have "unat (mi + sizeof_MemInfo + off) \<ge> 48"
    by (simp add: sizeof_MemInfo_def)
  then show ?thesis
    by (metis not_numeral_le_zero unat_0)
qed

lemma unat_ucast_align: "unat (ucast (align :: 32 word) :: 64 word) = unat align"
  by (simp add: unsigned_ucast_eq take_bit_nat_eq_self_iff) (use unsigned_less [of align, where 'a = nat] in simp)

lemma align_offset_le:
  fixes b :: "64 word"
  assumes "A \<noteq> 0"
  shows "unat (if b mod A = 0 then 0 else A - b mod A) \<le> unat A"
proof (cases "b mod A = 0")
  case True
  then show ?thesis by simp
next
  case False
  have "b mod A < A" using assms by (simp add: word_mod_less_divisor word_greater_zero_iff)
  then have "unat (A - b mod A) = unat A - unat (b mod A)"
    by (simp add: unat_sub)
  with False show ?thesis by simp
qed

lemma NRT_Free_heap: "heap (NRT_Free ptr s) = (heap s)(ptr := None)"
  by (simp add: NRT_Free_def call_free_def extern_call_def log_call_def Let_def)

lemma Allocate_External_heap: "heap (snd (NRT_Allocate_External n a s)) = heap s"
  by (simp add: alloc_defs split: option.splits list.splits prod.splits)

lemma init_heap:
  assumes "NRT_MemInfo_init mi p sz d i a s = Inr t"
  shows "\<exists>m. heap t = (heap s)(mi \<mapsto> m) \<and> data m = p \<and> refct m = 1"
  using assms by (auto simp: NRT_MemInfo_init_def split: if_splits)

lemma meminfo_and_data_heap:
  assumes "nrt_allocate_meminfo_and_data sz a s = (p, mi, s1)"
  shows "heap s1 = heap s \<and> p = mi + sizeof_MemInfo"
  using assms Allocate_External_heap [of "sizeof_MemInfo + sz" a s]
  by (auto simp: nrt_allocate_meminfo_and_data_def split: prod.splits)

lemma meminfo_and_data_align_heap:
  assumes "nrt_allocate_meminfo_and_data_align sz align a s = Inr (p, mi, s1)"
  shows "heap s1 = heap s \<and> (\<exists>off. p = mi + sizeof_MemInfo + off \<and> unat off \<le> unat align)"
proof -
  obtain b mi0 s0 where
    m: "nrt_allocate_meminfo_and_data (sz + ucast (2 * align)) a s = (b, mi0, s0)"
    by (cases "nrt_allocate_meminfo_and_data (sz + ucast (2 * align)) a s") auto
  from meminfo_and_data_heap [OF m] have h: "heap s0 = heap s" "b = mi0 + sizeof_MemInfo"
    by simp_all
  from assms m have nz: "align \<noteq> 0"
    by (auto simp: nrt_allocate_meminfo_and_data_align_def Let_def split: if_splits)
  then have A: "(ucast align :: 64 word) \<noteq> 0"
    by (metis unat_ucast_align unat_0_iff)
  let ?off = "if b mod ucast align = 0 then 0 else ucast align - b mod ucast align"
  from assms m nz have e: "p = b + ?off" "mi = mi0" "s1 = s0"
    by (auto simp: nrt_allocate_meminfo_and_data_align_def Let_def split: if_splits)
  from align_offset_le [OF A, of b] have "unat ?off \<le> unat align"
    by (simp only: unat_ucast_align)
  with e h show ?thesis by blast
qed

lemma fits_nonnull:
  assumes "block_fits n (Inr (mi, t))" "unat off \<le> n"
  shows "mi + sizeof_MemInfo + off \<noteq> 0"
proof -
  from assms have "unat mi + unat sizeof_MemInfo + unat off < 2 ^ 64"
    by (simp add: block_fits_def)
  then show ?thesis by (rule header_end_nonnull)
qed

lemma alloc_heap:
  assumes "NRT_MemInfo_alloc sz s = Inr (mi, t)" "block_fits 0 (NRT_MemInfo_alloc sz s)"
  shows "\<exists>m. heap t = (heap s)(mi \<mapsto> m) \<and> data m \<noteq> 0"
proof -
  obtain p mi0 s1 where m: "nrt_allocate_meminfo_and_data sz None s = (p, mi0, s1)"
    by (cases "nrt_allocate_meminfo_and_data sz None s") auto
  with assms(1) have i: "NRT_MemInfo_init mi p sz None NULL None s1 = Inr t" and e: "mi0 = mi"
    by (auto simp: NRT_MemInfo_alloc_def split: sum.splits)
  from meminfo_and_data_heap [OF m] e have h: "heap s1 = heap s" "p = mi + sizeof_MemInfo"
    by simp_all
  from fits_nonnull [of 0 mi t 0] assms have "mi + sizeof_MemInfo \<noteq> 0" by simp
  with init_heap [OF i] h show ?thesis by auto
qed

lemma alloc_external_heap:
  assumes "NRT_MemInfo_alloc_external sz a s = Inr (mi, t)"
    "block_fits 0 (NRT_MemInfo_alloc_external sz a s)"
  shows "\<exists>m. heap t = (heap s)(mi \<mapsto> m) \<and> data m \<noteq> 0"
proof -
  obtain p mi0 s1 where m: "nrt_allocate_meminfo_and_data sz a s = (p, mi0, s1)"
    by (cases "nrt_allocate_meminfo_and_data sz a s") auto
  with assms(1) have i: "NRT_MemInfo_init mi p sz None NULL a s1 = Inr t" and e: "mi0 = mi"
    by (auto simp: NRT_MemInfo_alloc_external_def split: sum.splits)
  from meminfo_and_data_heap [OF m] e have h: "heap s1 = heap s" "p = mi + sizeof_MemInfo"
    by simp_all
  from fits_nonnull [of 0 mi t 0] assms have "mi + sizeof_MemInfo \<noteq> 0" by simp
  with init_heap [OF i] h show ?thesis by auto
qed

lemma alloc_dtor_safe_heap:
  assumes "NRT_MemInfo_alloc_dtor_safe sz d s = Inr (mi, t)"
    "block_fits 0 (NRT_MemInfo_alloc_dtor_safe sz d s)"
  shows "\<exists>m. heap t = (heap s)(mi \<mapsto> m) \<and> data m \<noteq> 0"
proof -
  obtain p mi0 s1 where m: "nrt_allocate_meminfo_and_data sz None s = (p, mi0, s1)"
    by (cases "nrt_allocate_meminfo_and_data sz None s") auto
  with assms(1) have
    i: "NRT_MemInfo_init mi p sz (Some nrt_internal_custom_dtor_safe_fp) (as_voidp d) None
          (s1\<lparr>bytes := memset p 0xCB (MIN_sz sz 256) (bytes s1)\<rparr>) = Inr t"
    and e: "mi0 = mi"
    by (auto simp: NRT_MemInfo_alloc_dtor_safe_def Let_def split: sum.splits)
  from meminfo_and_data_heap [OF m] e have h: "heap s1 = heap s" "p = mi + sizeof_MemInfo"
    by simp_all
  from fits_nonnull [of 0 mi t 0] assms have "mi + sizeof_MemInfo \<noteq> 0" by simp
  with init_heap [OF i] h show ?thesis by auto
qed

lemma alloc_aligned_heap:
  assumes "NRT_MemInfo_alloc_aligned sz align s = Inr (mi, t)"
    "block_fits (unat align) (NRT_MemInfo_alloc_aligned sz align s)"
  shows "\<exists>m. heap t = (heap s)(mi \<mapsto> m) \<and> data m \<noteq> 0"
proof -
  from assms(1) obtain p s1 where
    m: "nrt_allocate_meminfo_and_data_align sz align None s = Inr (p, mi, s1)"
    and i: "NRT_MemInfo_init mi p sz None NULL None s1 = Inr t"
    by (auto simp: NRT_MemInfo_alloc_aligned_def split: sum.splits)
  from meminfo_and_data_align_heap [OF m] obtain off where
    h: "heap s1 = heap s" "p = mi + sizeof_MemInfo + off" "unat off \<le> unat align"
    by blast
  from fits_nonnull [of "unat align" mi t off] assms h have "p \<noteq> 0" by simp
  with init_heap [OF i] h show ?thesis by auto
qed

lemma alloc_safe_aligned_external_heap:
  assumes "NRT_MemInfo_alloc_safe_aligned_external sz align a s = Inr (mi, t)"
    "block_fits (unat align) (NRT_MemInfo_alloc_safe_aligned_external sz align a s)"
  shows "\<exists>m. heap t = (heap s)(mi \<mapsto> m) \<and> data m \<noteq> 0"
proof -
  from assms(1) obtain p s1 where
    m: "nrt_allocate_meminfo_and_data_align sz align a s = Inr (p, mi, s1)"
    and i: "NRT_MemInfo_init mi p sz (Some nrt_internal_dtor_safe_fp) (DataPtr sz) a
          (s1\<lparr>bytes := memset p 0xCB (MIN_sz sz 256) (bytes s1)\<rparr>) = Inr t"
    by (auto simp: NRT_MemInfo_alloc_safe_aligned_external_def Let_def split: sum.splits)
  from meminfo_and_data_align_heap [OF m] obtain off where
    h: "heap s1 = heap s" "p = mi + sizeof_MemInfo + off" "unat off \<le> unat align"
    by blast
  from fits_nonnull [of "unat align" mi t off] assms h have "p \<noteq> 0" by simp
  with init_heap [OF i] h show ?thesis by auto
qed

lemma alloc_safe_aligned_heap:
  assumes "NRT_MemInfo_alloc_safe_aligned sz align s = Inr (mi, t)"
    "block_fits (unat align) (NRT_MemInfo_alloc_safe_aligned sz align s)"
  shows "\<exists>m. heap t = (heap s)(mi \<mapsto> m) \<and> data m \<noteq> 0"
proof -
  from assms(1) obtain p s1 where
    m: "nrt_allocate_meminfo_and_data_align sz align None s = Inr (p, mi, s1)"
    and i: "NRT_MemInfo_init mi p sz (Some nrt_internal_dtor_safe_fp) (DataPtr sz) None
          (s1\<lparr>bytes := memset p 0xCB (MIN_sz sz 256) (bytes s1)\<rparr>) = Inr t"
    by (auto simp: NRT_MemInfo_alloc_safe_aligned_def Let_def split: sum.splits)
  from meminfo_and_data_align_heap [OF m] obtain off where
    h: "heap s1 = heap s" "p = mi + sizeof_MemInfo + off" "unat off \<le> unat align"
    by blast
  from fits_nonnull [of "unat align" mi t off] assms h have "p \<noteq> 0" by simp
  with init_heap [OF i] h show ?thesis by auto
qed

lemma new_heap:
  assumes "NRT_MemInfo_new p sz d i s = Inr (mi, t)"
  shows "\<exists>m. heap t = (heap s)(mi \<mapsto> m) \<and> data m = p \<and> refct m = 1"
proof -
  obtain mi0 s1 where a: "NRT_Allocate_External sizeof_MemInfo None s = (mi0, s1)"
    by (cases "NRT_Allocate_External sizeof_MemInfo None s") auto
  with assms have i: "NRT_MemInfo_init mi p sz d i None s1 = Inr t"
    by (auto simp: NRT_MemInfo_new_def NRT_Allocate_def split: sum.splits)
  from Allocate_External_heap [of sizeof_MemInfo None s] a have "heap s1 = heap s" by simp
  with init_heap [OF i] show ?thesis by auto
qed

lemma new_varsize_heap:
  assumes "NRT_MemInfo_new_varsize sz s = Inr (mi, t)"
  shows "mi = 0 \<and> heap t = heap s \<or> (\<exists>m. heap t = (heap s)(mi \<mapsto> m) \<and> data m \<noteq> 0)"
proof -
  obtain p s1 where a: "NRT_Allocate_External sz None s = (p, s1)"
    by (cases "NRT_Allocate_External sz None s") auto
  from Allocate_External_heap [of sz None s] a have h: "heap s1 = heap s" by simp
  show ?thesis
  proof (cases "p = 0")
    case True
    with assms a h show ?thesis by (simp add: NRT_MemInfo_new_varsize_def NRT_Allocate_def)
  next
    case False
    with assms a have "NRT_MemInfo_new p sz (Some nrt_varsize_dtor_fp) NULL s1 = Inr (mi, t)"
      by (simp add: NRT_MemInfo_new_varsize_def NRT_Allocate_def)
    from new_heap [OF this] False h show ?thesis by auto
  qed
qed

lemma new_varsize_dtor_heap:
  assumes "NRT_MemInfo_new_varsize_dtor sz d s = Inr (mi, t)"
  shows "heap t = heap s \<or> (\<exists>m. heap t = (heap s)(mi \<mapsto> m) \<and> data m \<noteq> 0)"
proof -
  from assms obtain s1 where n: "NRT_MemInfo_new_varsize sz s = Inr (mi, s1)"
    by (auto simp: NRT_MemInfo_new_varsize_dtor_def split: sum.splits if_splits option.splits)
  show ?thesis
  proof (cases "mi = 0")
    case True
    with new_varsize_heap [OF n] assms n show ?thesis
      by (auto simp: NRT_MemInfo_new_varsize_dtor_def)
  next
    case False
    with new_varsize_heap [OF n] obtain m where
      h: "heap s1 = (heap s)(mi \<mapsto> m)" "data m \<noteq> 0"
      by auto
    with assms n False have "heap t = (heap s)(mi \<mapsto> m\<lparr>dtor_info := as_voidp d\<rparr>)"
      by (auto simp: NRT_MemInfo_new_varsize_dtor_def)
    with h(2) show ?thesis by auto
  qed
qed

lemma acquire_heap:
  assumes "NRT_MemInfo_acquire mi s = Inr t"
  shows "\<exists>m. heap s mi = Some m \<and> heap t = (heap s)(mi \<mapsto> m\<lparr>refct := refct m + 1\<rparr>)"
  using assms by (auto simp: NRT_MemInfo_acquire_def split: option.splits if_splits)

lemma destroy_heap:
  assumes "NRT_MemInfo_destroy mi s = Inr t"
  shows "heap t = (heap s)(mi := None)"
proof (cases "heap s mi")
  case None
  with assms show ?thesis by (simp add: NRT_MemInfo_destroy_def NRT_dealloc_def)
next
  case (Some m)
  from destroy_effect [OF Some] assms show ?thesis by auto
qed

lemma release_heap:
  assumes "NRT_MemInfo_release mi s = Inr t" "heap t a = Some r"
  shows "\<exists>r0. heap s a = Some r0 \<and> data r = data r0"
proof -
  from assms(1) obtain m where h: "heap s mi = Some m" and live: "refct m \<noteq> 0"
    by (auto simp: NRT_MemInfo_release_def word_greater_zero_iff split: option.splits if_splits)
  show ?thesis
  proof (cases "refct m = 1")
    case False
    with release_not_last [OF h live] assms h show ?thesis
      by (auto split: if_splits)
  next
    case True
    let ?s0 = "s\<lparr>heap := (heap s)(mi \<mapsto> m\<lparr>refct := 0\<rparr>)\<rparr>"
    from release_last [OF h True] assms(1) have c: "NRT_MemInfo_call_dtor mi ?s0 = Inr t"
      by simp
    then obtain s1 where
      d: "NRT_MemInfo_destroy mi s1 = Inr t"
      and k: "heap s1 = heap ?s0 \<or> heap s1 = (heap ?s0)(data m := None)"
      using call_dtor_effect(3) [of "the (dtor m)" "data m" "size_mi m" "dtor_info m" ?s0]
      by (auto simp: NRT_MemInfo_call_dtor_def split: if_splits sum.splits)
    from destroy_heap [OF d] have "heap t = (heap s1)(mi := None)" .
    with k assms(2) have "a \<noteq> mi" "heap ?s0 a = Some r"
      by (auto split: if_splits)
    then show ?thesis by simp
  qed
qed

lemma Reallocate_heap: "heap (snd (NRT_Reallocate ptr n s)) = heap s"
  by (simp add: NRT_Reallocate_def call_realloc_def next_result_def extern_call_def log_call_def
      split: list.splits)

lemma varsize_alloc_heap:
  assumes "NRT_MemInfo_varsize_alloc mi sz s = Inr (p, t)" "p \<noteq> 0"
  shows "\<exists>m. heap t = (heap s)(mi \<mapsto> m) \<and> data m = p"
proof -
  obtain q s1 where a: "NRT_Allocate_External sz None s = (q, s1)"
    by (cases "NRT_Allocate_External sz None s") auto
  from Allocate_External_heap [of sz None s] a have "heap s1 = heap s" by simp
  with assms a show ?thesis
    by (auto simp: NRT_MemInfo_varsize_alloc_def NRT_Allocate_def nrt_fatal_error_def Let_def
        split: option.splits if_splits)
qed

lemma varsize_realloc_heap:
  assumes "NRT_MemInfo_varsize_realloc mi sz s = Inr (p, t)" "p \<noteq> 0"
  shows "\<exists>m. heap t = (heap s)(mi \<mapsto> m) \<and> data m = p"
proof -
  from assms(1) obtain m where h: "heap s mi = Some m"
    by (auto simp: NRT_MemInfo_varsize_realloc_def split: option.splits)
  obtain q s1 where a: "NRT_Reallocate (data m) sz s = (q, s1)"
    by (cases "NRT_Reallocate (data m) sz s") auto
  from Reallocate_heap [of "data m" sz s] a have "heap s1 = heap s" by simp
  with assms a h show ?thesis
    by (auto simp: NRT_MemInfo_varsize_realloc_def nrt_fatal_error_def Let_def
        split: if_splits)
qed

lemma varsize_free_heap:
  assumes "NRT_MemInfo_varsize_free mi ptr s = Inr t"
  shows "\<exists>m. heap s mi = Some m \<and> ptr \<noteq> mi \<and>
           heap t = (if ptr = data m then ((heap s)(ptr := None))(mi \<mapsto> m\<lparr>data := 0\<rparr>)
                     else (heap s)(ptr := None))"
proof (cases "ptr = mi")
  case True
  with assms show ?thesis
    by (simp add: NRT_MemInfo_varsize_free_def Let_def NRT_Free_heap)
next
  case False
  then have e: "heap (NRT_Free ptr s) mi = heap s mi" by (simp add: NRT_Free_heap)
  with assms obtain m where h: "heap s mi = Some m"
    by (auto simp: NRT_MemInfo_varsize_free_def Let_def split: option.splits)
  with assms e False show ?thesis
    by (cases "ptr = data m") (auto simp: NRT_MemInfo_varsize_free_def Let_def NRT_Free_heap)
qed

lemma call_keeps_data:
  assumes inv: "\<forall>a r. heap s a = Some r \<longrightarrow> data r \<noteq> 0"
    and ad: "admissible c s" and c: "call c s = Inr (p, t)"
  shows "\<forall>a r. heap t a = Some r \<longrightarrow> data r \<noteq> 0"
proof -
  have new: "\<forall>a r. heap t a = Some r \<longrightarrow> data r \<noteq> 0"
    if "heap t = heap s \<or> (\<exists>m. heap t = (heap s)(p \<mapsto> m) \<and> data m \<noteq> 0)"
    using that inv by (auto split: if_splits)
  show ?thesis
  proof (cases c)
    case (Call_alloc sz)
    with ad c alloc_heap [of sz s p t] show ?thesis by (intro new) simp
  next
    case (Call_alloc_external sz a)
    with ad c alloc_external_heap [of sz a s p t] show ?thesis by (intro new) simp
  next
    case (Call_alloc_dtor_safe sz d)
    with ad c alloc_dtor_safe_heap [of sz d s p t] show ?thesis by (intro new) simp
  next
    case (Call_alloc_safe sz)
    with ad c alloc_dtor_safe_heap [of sz None s p t] show ?thesis
      by (intro new) (simp add: NRT_MemInfo_alloc_safe_def)
  next
    case (Call_alloc_aligned sz align)
    with ad c alloc_aligned_heap [of sz align s p t] show ?thesis by (intro new) simp
  next
    case (Call_alloc_safe_aligned sz align)
    with ad c alloc_safe_aligned_heap [of sz align s p t] show ?thesis by (intro new) simp
  next
    case (Call_alloc_safe_aligned_external sz align a)
    with ad c alloc_safe_aligned_external_heap [of sz align a s p t] show ?thesis
      by (intro new) simp
  next
    case (Call_new_varsize sz)
    with c new_varsize_heap [of sz s p t] show ?thesis by (intro new) auto
  next
    case (Call_new_varsize_dtor sz d)
    with c new_varsize_dtor_heap [of sz d s p t] show ?thesis by (intro new) simp
  next
    case (Call_manage_memory q d)
    with ad c new_heap [of q 0 "Some nrt_manage_memory_dtor_fp" "as_voidp d" s p t]
    show ?thesis by (intro new) (auto simp: nrt_manage_memory_def)
  next
    case (Call_acquire mi)
    with c obtain m where "heap s mi = Some m"
      "heap t = (heap s)(mi \<mapsto> m\<lparr>refct := refct m + 1\<rparr>)"
      using acquire_heap [of mi s t] by (auto simp: returns_void_def split: sum.splits)
    with inv show ?thesis by (auto split: if_splits)
  next
    case (Call_release mi)
    with c have "NRT_MemInfo_release mi s = Inr t"
      by (auto simp: returns_void_def split: sum.splits)
    from release_heap [OF this] inv show ?thesis by fastforce
  next
    case (Call_varsize_alloc mi sz)
    with ad c have v: "NRT_MemInfo_varsize_alloc mi sz s = Inr (p, t)" "p \<noteq> 0"
      by (simp_all add: returns_nonnull_def)
    from varsize_alloc_heap [OF v] v(2) inv show ?thesis by (auto split: if_splits)
  next
    case (Call_varsize_realloc mi sz)
    with ad c have v: "NRT_MemInfo_varsize_realloc mi sz s = Inr (p, t)" "p \<noteq> 0"
      by (simp_all add: returns_nonnull_def)
    from varsize_realloc_heap [OF v] v(2) inv show ?thesis by (auto split: if_splits)
  next
    case (Call_varsize_free mi ptr)
    with c have "NRT_MemInfo_varsize_free mi ptr s = Inr t"
      by (auto simp: returns_void_def split: sum.splits)
    from varsize_free_heap [OF this] Call_varsize_free ad have "heap t = (heap s)(ptr := None)"
      by auto
    with inv show ?thesis by (auto split: if_splits)
  next
    case Call_shutdown
    with c inv show ?thesis by (auto simp: NRT_MemSys_shutdown_def)
  qed
qed

lemma run_keeps_data:
  assumes "\<forall>a r. heap s a = Some r \<longrightarrow> data r \<noteq> 0" "admissible_run cs s" "run cs s = Inr t"
  shows "\<forall>a r. heap t a = Some r \<longrightarrow> data r \<noteq> 0"
  using assms
proof (induction cs arbitrary: s)
  case Nil
  then show ?case by simp
next
  case (Cons c cs)
  from Cons.prems(3) obtain p s1 where c: "call c s = Inr (p, s1)" and r: "run cs s1 = Inr t"
    by (auto split: sum.splits)
  from Cons.prems(2) c have ad: "admissible c s" "admissible_run cs s1" by simp_all
  from call_keeps_data [OF Cons.prems(1) ad(1) c] have "\<forall>a r. heap s1 a = Some r \<longrightarrow> data r \<noteq> 0" .
  from Cons.IH [OF this ad(2) r] show ?case .
qed

lemma manage_memory_data:
  assumes "fst (next_result s) \<noteq> 0"
  shows "\<exists>t m. nrt_manage_memory p d s = Inr (fst (next_result s), t) \<and>
           heap t (fst (next_result s)) = Some m \<and> refct m = 1 \<and> data m = p \<and>
           dtor m = Some nrt_manage_memory_dtor_fp \<and> dtor_info m = as_voidp d"
proof -
  from Allocate_plain [of sizeof_MemInfo s] obtain s1 where
    "NRT_Allocate_External sizeof_MemInfo None s = (fst (next_result s), s1)"
    by blast
  with assms show ?thesis
    by (simp add: nrt_manage_memory_def NRT_MemInfo_new_def NRT_Allocate_def NRT_MemInfo_init_def)
qed

lemma varsize_free_current:
  assumes "heap s mi = Some m" "data m \<noteq> mi"
  shows "\<exists>t. NRT_MemInfo_varsize_free mi (data m) s = Inr t \<and>
           heap t mi = Some (m\<lparr>data := 0\<rparr>)"
  using assms by (simp add: NRT_MemInfo_varsize_free_def Let_def NRT_Free_heap)

text \<open>
  C5 (as amended). Start from a runtime without handles and make any sequence of public
  calls that return: the allocation variants (each block lying inside the address space),
  the variable-size constructors, \<^verbatim>\<open>nrt_manage_memory\<close> around a pointer that is not null,
  acquire, release, variable-size resizes that succeed, \<^verbatim>\<open>NRT_MemInfo_varsize_free\<close> of a
  pointer other than the handle's current data pointer, and shutdown. Then every handle
  there is has a data pointer that is not null, whatever its refcount. A handle made by
  \<^verbatim>\<open>nrt_manage_memory\<close> holds the pointer its caller passed, null included, with refcount
  1. \<^verbatim>\<open>NRT_MemInfo_varsize_free\<close> given the handle's current data pointer returns and
  sets the data pointer to null, leaving the refcount and the rest of the handle as they
  were.
\<close>

theorem data_pointer_nonnull:
  "(heap s = Map.empty \<and> admissible_run cs s \<and> run cs s = Inr t \<and> heap t mi = Some m \<longrightarrow>
      data m \<noteq> 0) \<and>
   (fst (next_result s) \<noteq> 0 \<longrightarrow>
      (\<exists>t m. nrt_manage_memory p d s = Inr (fst (next_result s), t) \<and>
           heap t (fst (next_result s)) = Some m \<and> refct m = 1 \<and> data m = p \<and>
           dtor m = Some nrt_manage_memory_dtor_fp \<and> dtor_info m = as_voidp d)) \<and>
   (heap s mi = Some m \<and> data m \<noteq> mi \<longrightarrow>
      (\<exists>t. NRT_MemInfo_varsize_free mi (data m) s = Inr t \<and>
           heap t mi = Some (m\<lparr>data := 0\<rparr>)))"
proof (intro conjI impI)
  assume a: "heap s = Map.empty \<and> admissible_run cs s \<and> run cs s = Inr t \<and> heap t mi = Some m"
  then have "\<forall>a r. heap s a = Some r \<longrightarrow> data r \<noteq> 0" by simp
  from run_keeps_data [OF this, of cs t] a show "data m \<noteq> 0" by blast
next
  assume "fst (next_result s) \<noteq> 0"
  then show "\<exists>t m. nrt_manage_memory p d s = Inr (fst (next_result s), t) \<and>
           heap t (fst (next_result s)) = Some m \<and> refct m = 1 \<and> data m = p \<and>
           dtor m = Some nrt_manage_memory_dtor_fp \<and> dtor_info m = as_voidp d"
    by (rule manage_memory_data)
next
  assume "heap s mi = Some m \<and> data m \<noteq> mi"
  then show "\<exists>t. NRT_MemInfo_varsize_free mi (data m) s = Inr t \<and>
           heap t mi = Some (m\<lparr>data := 0\<rparr>)"
    using varsize_free_current by blast
qed

lemmas run_defs = eval_defs3 NRT_MemInfo_alloc_def NRT_MemInfo_alloc_safe_def
  NRT_MemInfo_alloc_aligned_def NRT_MemInfo_alloc_safe_aligned_def
  NRT_MemInfo_alloc_safe_aligned_external_def nrt_allocate_meminfo_and_data_align_def
  NRT_MemInfo_new_varsize_def NRT_MemInfo_new_varsize_dtor_def nrt_manage_memory_def
  NRT_MemInfo_acquire_def NRT_MemInfo_release_def NRT_MemInfo_call_dtor_def
  NRT_MemInfo_destroy_def NRT_dealloc_def
  NRT_MemInfo_varsize_alloc_def NRT_MemInfo_varsize_realloc_def NRT_MemInfo_varsize_free_def
  returns_void_def block_fits_def returns_nonnull_def NULL_def nrt_fatal_error_def

lemma example_run:
  "\<not> isl (run example_calls (start example_results))"
  "admissible_run example_calls (start example_results)"
  "map_option data (heap (projr (run example_calls (start example_results))) 0x1700) = Some 0x2300"
  "map_option data (heap (projr (run example_calls (start example_results))) 0x1900) = Some 0x5000"
  "map_option data (heap (projr (run example_calls (start example_results))) 0x1608) = Some 0x1640"
  "heap (projr (run example_calls (start example_results))) 0x1000 = None"
  by (simp_all add: example_calls_def example_results_def run_defs)

theorem data_pointer_nonnull_witness:
  "admissible_run example_calls (start example_results) \<and>
   \<not> isl (run example_calls (start example_results)) \<and>
   (\<exists>m. heap (projr (run example_calls (start example_results))) 0x1700 = Some m \<and>
        data m \<noteq> 0) \<and>
   map_option data (heap (projr (run example_calls (start example_results))) 0x1700) =
     Some 0x2300 \<and>
   map_option data (heap (projr (run example_calls (start example_results))) 0x1900) =
     Some 0x5000 \<and>
   map_option data (heap (projr (run example_calls (start example_results))) 0x1608) =
     Some 0x1640 \<and>
   \<not> isl (nrt_manage_memory 0 None (start [0x1000])) \<and>
   fst (projr (nrt_manage_memory 0 None (start [0x1000]))) = 0x1000 \<and>
   map_option data (heap (snd (projr (nrt_manage_memory 0 None (start [0x1000])))) 0x1000) =
     Some 0 \<and>
   map_option refct (heap (snd (projr (nrt_manage_memory 0 None (start [0x1000])))) 0x1000) =
     Some 1 \<and>
   \<not> isl (NRT_MemInfo_varsize_free 0x1000 0x2000 varsize_world) \<and>
   heap (projr (NRT_MemInfo_varsize_free 0x1000 0x2000 varsize_world)) 0x1000 =
     Some \<lparr>refct = 1, dtor = Some nrt_varsize_dtor_fp, dtor_info = NULL, data = 0,
           size_mi = 16, external_allocator = None\<rparr>"
proof -
  let ?v = "\<lparr>refct = 1, dtor = Some nrt_varsize_dtor_fp, dtor_info = NULL, data = 0x2000,
            size_mi = 16, external_allocator = None\<rparr>"
  from example_run(1) obtain t where r: "run example_calls (start example_results) = Inr t"
    by (cases "run example_calls (start example_results)") auto
  with example_run(3) obtain m where h: "heap t 0x1700 = Some m"
    by auto
  have e: "heap (start example_results) = Map.empty"
    by (simp add: start_def NRT_MemSys_init_def)
  from data_pointer_nonnull [where s = "start example_results" and cs = example_calls
      and t = t and mi = "0x1700" and m = m, THEN conjunct1] e example_run(2) r h
  have "data m \<noteq> 0" by blast
  with h r have 1:
    "\<exists>m. heap (projr (run example_calls (start example_results))) 0x1700 = Some m \<and> data m \<noteq> 0"
    by simp
  have n: "fst (next_result (start [0x1000])) = 0x1000"
    by (simp add: eval_defs)
  then have p: "fst (next_result (start [0x1000])) \<noteq> 0" by simp
  from data_pointer_nonnull [where s = "start [0x1000]" and p = 0 and d = None,
      THEN conjunct2, THEN conjunct1, THEN mp, OF p, unfolded n]
  obtain t2 m2 where
    "nrt_manage_memory 0 None (start [0x1000]) = Inr (0x1000, t2)"
    "heap t2 0x1000 = Some m2" "refct m2 = 1" "data m2 = 0"
    by (elim exE conjE) (rule that; assumption)
  then have 2: "\<not> isl (nrt_manage_memory 0 None (start [0x1000]))"
    "fst (projr (nrt_manage_memory 0 None (start [0x1000]))) = 0x1000"
    "map_option data (heap (snd (projr (nrt_manage_memory 0 None (start [0x1000])))) 0x1000) =
       Some 0"
    "map_option refct (heap (snd (projr (nrt_manage_memory 0 None (start [0x1000])))) 0x1000) =
       Some 1"
    by simp_all
  have q: "heap varsize_world 0x1000 = Some ?v \<and> data ?v \<noteq> 0x1000"
    using varsize_world_eval(2) by simp
  from data_pointer_nonnull [where s = varsize_world and mi = "0x1000" and m = ?v,
      THEN conjunct2, THEN conjunct2, THEN mp, OF q]
  obtain t3 where "NRT_MemInfo_varsize_free 0x1000 (data ?v) varsize_world = Inr t3"
    "heap t3 0x1000 = Some (?v\<lparr>data := 0\<rparr>)"
    by (elim exE conjE) (rule that; assumption)
  then have 3: "\<not> isl (NRT_MemInfo_varsize_free 0x1000 0x2000 varsize_world)"
    "heap (projr (NRT_MemInfo_varsize_free 0x1000 0x2000 varsize_world)) 0x1000 =
     Some \<lparr>refct = 1, dtor = Some nrt_varsize_dtor_fp, dtor_info = NULL, data = 0,
           size_mi = 16, external_allocator = None\<rparr>"
    by simp_all
  from example_run 1 2 3 show ?thesis by simp
qed

text \<open>\<^verbatim>\<open>NRT_MemInfo_varsize_free\<close> of the example handle's payload leaves a handle with
  refcount 1 and a null data pointer.\<close>

theorem varsize_free_nulls_data:
  "map_option refct (heap varsize_world 0x1000) = Some 1 \<and>
   map_option data (heap varsize_world 0x1000) = Some 0x2000 \<and>
   \<not> isl (NRT_MemInfo_varsize_free 0x1000 0x2000 varsize_world) \<and>
   map_option refct
     (heap (projr (NRT_MemInfo_varsize_free 0x1000 0x2000 varsize_world)) 0x1000) = Some 1 \<and>
   map_option data
     (heap (projr (NRT_MemInfo_varsize_free 0x1000 0x2000 varsize_world)) 0x1000) = Some 0"
  by (simp add: varsize_world_eval(2))
    (simp add: varsize_world_def varsize_example_def eval_defs varsize_defs)

end
